theory Spec2Isabelle
  imports Complex_Main
begin

section \<open>What is modelled\<close>

text \<open>
  The payroll engine of the attendance application turns raw attendance rows into a
  ledger of shifts and aggregates. This theory embeds
  \<^item> the pipeline \<open>processPayroll\<close> with the manual-penalty column and the placeholder
    shifts (\<open>types.ts\<close>, lines 477 to 740), with its parsing utilities;
  \<^item> the manager actions of the two results views: \<open>toggleWaiver\<close> and \<open>addManagerNote\<close>
    (\<open>src/unnamed/part_001\<close>), \<open>applyOtherPenalty\<close> and \<open>removePenalty\<close>
    (\<open>components/PayrollResults.tsx\<close>).

  The repository also holds an earlier text of the pipeline
  (\<open>services/payrollProcessor.ts\<close>). Its classification of the arrival, its penalty
  tiers and its rule for the departure are the same lines; it has no manual-penalty
  column, it makes no shift for a group without a check-in, and it logs a date that
  does not parse only for the first twenty rows.
\<close>

section \<open>Numbers and instants\<close>

text \<open>
  Sums and differences are taken exactly, without the rounding of IEEE doubles. The
  numbers the pipeline computes (hours, pay, penalties, paid amounts) are finite and are
  modelled as \<^typ>\<open>real\<close>; counts and whole minutes are \<^typ>\<open>int\<close>.

  A manager can type the amount \<open>Infinity\<close>: \<open>parseFloat\<close> reads it as the number
  Infinity, which is not NaN, and the adjustment carries it into \<open>manualAdjustment\<close>,
  \<open>netPay\<close> and \<open>balanceRemaining\<close>. These three fields, and the sums the aggregation
  takes of them, are therefore of the type \<open>number\<close> below: a real, one of the two
  infinities, or NaN, with the addition, the subtraction and the comparison of
  JavaScript. A finite value \<open>x\<close> is written \<open>Fin x\<close> there. Two numbers are equal when
  they are the same value; NaN is the same value as NaN.
\<close>

datatype number = Fin real | PosInf | NegInf | NaN

instantiation number :: "{zero, plus, uminus, minus, ord}"
begin

definition zero_number :: number where
  "zero_number = Fin 0"

fun plus_number :: "number \<Rightarrow> number \<Rightarrow> number" where
  "plus_number (Fin a) (Fin b) = Fin (a + b)"
| "plus_number NaN y = NaN"
| "plus_number x NaN = NaN"
| "plus_number PosInf NegInf = NaN"
| "plus_number NegInf PosInf = NaN"
| "plus_number PosInf y = PosInf"
| "plus_number x PosInf = PosInf"
| "plus_number NegInf y = NegInf"
| "plus_number x NegInf = NegInf"

fun uminus_number :: "number \<Rightarrow> number" where
  "uminus_number (Fin a) = Fin (- a)"
| "uminus_number PosInf = NegInf"
| "uminus_number NegInf = PosInf"
| "uminus_number NaN = NaN"

definition minus_number :: "number \<Rightarrow> number \<Rightarrow> number" where
  "minus_number x y = x + (- y)"

fun less_number :: "number \<Rightarrow> number \<Rightarrow> bool" where
  "less_number (Fin a) (Fin b) = (a < b)"
| "less_number NaN y = False"
| "less_number x NaN = False"
| "less_number NegInf NegInf = False"
| "less_number NegInf y = True"
| "less_number x NegInf = False"
| "less_number PosInf y = False"
| "less_number x PosInf = True"

definition less_eq_number :: "number \<Rightarrow> number \<Rightarrow> bool" where
  "less_eq_number x y = (x < y \<or> (x = y \<and> x \<noteq> NaN))"

instance ..

end

definition isNaN :: "number \<Rightarrow> bool" where
  "isNaN x = (x = NaN)"

text \<open>
  A \<open>Date\<close> is the number of milliseconds on the local wall clock, counted from local
  midnight of 1 January 1970 (a Thursday); the time zone is one fixed offset, without
  daylight-saving shifts. The methods of \<open>Date\<close> the payroll code calls are then
  arithmetic on that number. An invalid \<open>Date\<close> is \<open>None\<close> of \<open>Date option\<close>.
\<close>

type_synonym Date = int

definition msPerDay :: int where
  "msPerDay = 86400000"

definition getHours :: "Date \<Rightarrow> int" where
  "getHours d = (d mod 86400000) div 3600000"

definition getMinutes :: "Date \<Rightarrow> int" where
  "getMinutes d = (d mod 3600000) div 60000"

definition getDay :: "Date \<Rightarrow> int" where
  \<comment> \<open>0 is Sunday; day 0 of the count is a Thursday\<close>
  "getDay d = (d div 86400000 + 4) mod 7"

definition startOfDayNative :: "Date \<Rightarrow> Date" where
  \<comment> \<open>\<open>d.setHours(0, 0, 0, 0)\<close> on a copy\<close>
  "startOfDayNative d = d - d mod 86400000"

definition setTimeOnDate :: "Date \<Rightarrow> int \<Rightarrow> int \<Rightarrow> int \<Rightarrow> Date" where
  \<comment> \<open>\<open>d.setHours(hours, minutes, seconds, 0)\<close> on a copy; values beyond 23 or 59 carry over\<close>
  "setTimeOnDate d hours minutes seconds =
     (d - d mod 86400000) + hours * 3600000 + minutes * 60000 + seconds * 1000"

definition differenceInMinutes :: "Date \<Rightarrow> Date \<Rightarrow> int" where
  \<comment> \<open>date-fns: the difference in milliseconds over 60000, rounded towards zero\<close>
  "differenceInMinutes l r =
     (let diff = l - r in if 0 \<le> diff then diff div 60000 else - ((- diff) div 60000))"

definition toInteger :: "real \<Rightarrow> int" where
  \<comment> \<open>rounding towards zero\<close>
  "toInteger x = (if 0 \<le> x then \<lfloor>x\<rfloor> else \<lceil>x\<rceil>)"

definition addDays :: "Date \<Rightarrow> real \<Rightarrow> Date" where
  \<comment> \<open>date-fns \<open>addDays(date, amount)\<close> adds whole days: version 2 applies \<open>toInteger\<close> to the
     amount, the later versions call \<open>setDate(getDate() + amount)\<close>, where \<open>setDate\<close> cuts
     the day of the month to a whole number. For an amount that is not negative, such as
     the 0.375 and the 1 the pipeline passes, both add the whole part of the amount.\<close>
  "addDays d amount = d + toInteger amount * 86400000"

section \<open>The data model\<close>

datatype ShiftType = A | B | C

text \<open>
  \<open>DayShift\<close> of \<open>types.ts\<close>. The field \<open>id\<close> of the source is \<open>shift_id\<close> here;
  the optional \<open>adjustmentNote\<close> is an option.
\<close>

record DayShift =
  shift_id :: string
  date :: string
  name :: string
  actualIn :: Date
  actualOut :: Date
  shiftType :: ShiftType
  shiftStart :: Date
  latenessMinutes :: int
  earlyMinutes :: real
  workHours :: real
  durationHours :: real
  otHours :: real
  otPay :: real
  standardPay :: real
  attendancePenalty :: real
  manualPenalty :: real
  manualAdjustment :: number
  penaltyWaiver :: real
  adjustmentNote :: "string option"
  netPay :: number
  amountPaid :: real
  balanceRemaining :: number

section \<open>Shift classification and the lateness penalty\<close>

text \<open>
  The classification is written inline in \<open>processPayroll\<close> (\<open>types.ts\<close> lines 612 to
  626, and the same text in \<open>services/payrollProcessor.ts\<close> lines 116 to 135).
\<close>

definition totalMinutesOfDay :: "Date \<Rightarrow> int" where
  "totalMinutesOfDay actIn = getHours actIn * 60 + getMinutes actIn"

definition classifyShift :: "Date \<Rightarrow> ShiftType \<times> Date" where
  "classifyShift actIn =
     (if totalMinutesOfDay actIn < 10 * 60 + 30 then
        (A, setTimeOnDate (startOfDayNative actIn) 10 0 0)
      else if totalMinutesOfDay actIn \<le> 12 * 60 + 30 then
        (C, setTimeOnDate (startOfDayNative actIn) 11 0 0)
      else
        (let isThuFri = (getDay actIn = 4 \<or> getDay actIn = 5)
         in (B, setTimeOnDate (startOfDayNative actIn) (if isThuFri then 15 else 14) 0 0)))"

definition latenessOf :: "Date \<Rightarrow> Date \<Rightarrow> int" where
  \<comment> \<open>\<open>Math.max(0, differenceInMinutes(actualIn, shiftStart))\<close>\<close>
  "latenessOf actIn start = max 0 (differenceInMinutes actIn start)"

definition penaltyOf :: "int \<Rightarrow> real" where
  \<comment> \<open>lines 629 to 632: the tiers, the highest first\<close>
  "penaltyOf late =
     (if late \<ge> 60 then 10 else if late \<ge> 20 then 5 else if late \<ge> 10 then 3 else 0)"

section \<open>Strings and the parsing utilities\<close>

text \<open>
  Strings are lists of 8-bit characters, read as Latin-1 code points. White space is
  what \<open>trim\<close> and the class \<open>\s\<close> of a regular expression take for it in that range:
  tab, line feed, vertical tab, form feed, carriage return, space and the no-break space.
\<close>

definition isSpace :: "char \<Rightarrow> bool" where
  "isSpace c = ((of_char c :: nat) \<in> {9, 10, 11, 12, 13, 32, 160})"

definition isDigit :: "char \<Rightarrow> bool" where
  "isDigit c = (48 \<le> (of_char c :: nat) \<and> (of_char c :: nat) \<le> 57)"

definition digitVal :: "char \<Rightarrow> nat" where
  "digitVal c = (of_char c :: nat) - 48"

definition digitsVal :: "string \<Rightarrow> nat" where
  "digitsVal ds = foldl (\<lambda>n c. 10 * n + digitVal c) 0 ds"

definition trim :: "string \<Rightarrow> string" where
  "trim s = rev (dropWhile isSpace (rev (dropWhile isSpace s)))"

fun collapseRuns :: "(char \<Rightarrow> bool) \<Rightarrow> char \<Rightarrow> bool \<Rightarrow> string \<Rightarrow> string" where
  \<comment> \<open>every maximal run of characters of the class becomes one \<open>rep\<close>; the flag says that
     the character before was of the class\<close>
  "collapseRuns P rep prev [] = []"
| "collapseRuns P rep prev (c # cs) =
     (if P c then (if prev then collapseRuns P rep True cs else rep # collapseRuns P rep True cs)
      else c # collapseRuns P rep False cs)"

definition collapseSpaces :: "string \<Rightarrow> string" where
  \<comment> \<open>\<open>.replace(/\s+/g, ' ')\<close>\<close>
  "collapseSpaces s = collapseRuns isSpace (CHR '' '') False s"

definition lowerChar :: "char \<Rightarrow> char" where
  "lowerChar c =
     (let n = (of_char c :: nat)
      in if (65 \<le> n \<and> n \<le> 90) \<or> (192 \<le> n \<and> n \<le> 222 \<and> n \<noteq> 215)
         then char_of (n + 32) else c)"

definition toLowerCase :: "string \<Rightarrow> string" where
  "toLowerCase s = map lowerChar s"

definition orEmpty :: "string option \<Rightarrow> string" where
  \<comment> \<open>\<open>value || ''\<close> for a field that may be missing\<close>
  "orEmpty v = (case v of None \<Rightarrow> [] | Some s \<Rightarrow> s)"

subsection \<open>Times of day\<close>

text \<open>
  \<open>extractTimeComponents\<close> searches the trimmed text for the first match of
  \<open>/(\d{1,2})[:.](\d{1,2})(?:[:.](\d{1,2}))?\s*(AM|PM)?/i\<close>. The matcher below tries each
  start position from the left; at a position the hour takes two digits when the
  separator and a minute digit follow them and one digit otherwise, the minute and the
  second take two digits when they are there, and the marker is looked for after all the
  white space.
\<close>

record TimeComponents =
  hours :: int
  minutes :: int
  seconds :: int

definition isTimeSep :: "char \<Rightarrow> bool" where
  "isTimeSep c = (c = CHR '':'' \<or> c = CHR ''.'')"

definition takeDigits2 :: "string \<Rightarrow> (nat \<times> string) option" where
  \<comment> \<open>\<open>\d{1,2}\<close>, greedy\<close>
  "takeDigits2 s =
     (case s of
        [] \<Rightarrow> None
      | a # r \<Rightarrow>
          if \<not> isDigit a then None
          else (case r of
                  [] \<Rightarrow> Some (digitVal a, [])
                | b # r' \<Rightarrow> if isDigit b then Some (10 * digitVal a + digitVal b, r')
                            else Some (digitVal a, r)))"

definition matchMarker :: "string \<Rightarrow> string option" where
  \<comment> \<open>\<open>\s*(AM|PM)?\<close>: the marker in capitals, when there is one\<close>
  "matchMarker s =
     (case dropWhile isSpace s of
        a # m # _ \<Rightarrow>
          if (m = CHR ''M'' \<or> m = CHR ''m'') \<and> (a = CHR ''A'' \<or> a = CHR ''a'') then Some ''AM''
          else if (m = CHR ''M'' \<or> m = CHR ''m'') \<and> (a = CHR ''P'' \<or> a = CHR ''p'') then Some ''PM''
          else None
      | _ \<Rightarrow> None)"

definition matchAfterHour :: "nat \<Rightarrow> string \<Rightarrow> (nat \<times> nat \<times> nat \<times> string option) option" where
  \<comment> \<open>the rest of the pattern once the hour is read: separator, minute, optional second, marker\<close>
  "matchAfterHour h s =
     (case s of
        [] \<Rightarrow> None
      | c # r \<Rightarrow>
          if \<not> isTimeSep c then None
          else (case takeDigits2 r of
                  None \<Rightarrow> None
                | Some (m, r1) \<Rightarrow>
                    (case r1 of
                       [] \<Rightarrow> Some (h, m, 0, matchMarker r1)
                     | c2 # r2 \<Rightarrow>
                         if isTimeSep c2 then
                           (case takeDigits2 r2 of
                              Some (sec, r3) \<Rightarrow> Some (h, m, sec, matchMarker r3)
                            | None \<Rightarrow> Some (h, m, 0, matchMarker r1))
                         else Some (h, m, 0, matchMarker r1))))"

definition matchTimeAt :: "string \<Rightarrow> (nat \<times> nat \<times> nat \<times> string option) option" where
  "matchTimeAt s =
     (case takeDigits2 s of
        None \<Rightarrow> None
      | Some (h, r) \<Rightarrow>
          (case matchAfterHour h r of
             Some res \<Rightarrow> Some res
           | None \<Rightarrow>
               (case s of
                  a # r' \<Rightarrow> if isDigit a then matchAfterHour (digitVal a) r' else None
                | [] \<Rightarrow> None)))"

fun matchTime :: "string \<Rightarrow> (nat \<times> nat \<times> nat \<times> string option) option" where
  "matchTime [] = None"
| "matchTime (c # cs) =
     (case matchTimeAt (c # cs) of Some res \<Rightarrow> Some res | None \<Rightarrow> matchTime cs)"

definition extractTimeComponents :: "string option \<Rightarrow> TimeComponents option" where
  "extractTimeComponents timeStr =
     (case timeStr of
        None \<Rightarrow> None
      | Some t \<Rightarrow>
          if t = [] \<or> trim t = [] then None
          else (case matchTime (trim t) of
                  None \<Rightarrow> None
                | Some (h, m, s, ampm) \<Rightarrow>
                    (let h1 = (if ampm = Some ''PM'' \<and> h < 12 then h + 12 else h);
                         h2 = (if ampm = Some ''AM'' \<and> h1 = 12 then 0 else h1)
                     in Some \<lparr>hours = int h2, minutes = int m, seconds = int s\<rparr>)))"

subsection \<open>Numbers in text\<close>

text \<open>
  \<open>parseFloat\<close> reads the longest decimal literal at the start of the text, after white
  space: a sign, and then either the word \<open>Infinity\<close> or digits with an optional
  fraction and an optional exponent. A text that starts with neither gives NaN. The
  digits are read as their exact value, also beyond the range of doubles.
\<close>

definition readSign :: "string \<Rightarrow> int \<times> string" where
  "readSign s =
     (case s of
        [] \<Rightarrow> (1, s)
      | c # r \<Rightarrow> if c = CHR ''-'' then (- 1, r) else if c = CHR ''+'' then (1, r) else (1, s))"

definition readExponent :: "string \<Rightarrow> int" where
  \<comment> \<open>\<open>e\<close> or \<open>E\<close>, a sign, at least one digit; 0 when there is no such part\<close>
  "readExponent s =
     (case s of
        [] \<Rightarrow> 0
      | c # r \<Rightarrow>
          if c = CHR ''e'' \<or> c = CHR ''E'' then
            (let (sg, u) = readSign r; ds = takeWhile isDigit u
             in if ds = [] then 0 else sg * int (digitsVal ds))
          else 0)"

definition scale10 :: "real \<Rightarrow> int \<Rightarrow> real" where
  "scale10 x e = (if 0 \<le> e then x * 10 ^ nat e else x / 10 ^ nat (- e))"

definition parseFloat :: "string \<Rightarrow> number" where
  "parseFloat s =
     (let (sg, u) = readSign (dropWhile isSpace s);
          ip = takeWhile isDigit u;
          u1 = dropWhile isDigit u;
          hasDot = (case u1 of [] \<Rightarrow> False | c # _ \<Rightarrow> c = CHR ''.'');
          fp = (if hasDot then takeWhile isDigit (tl u1) else []);
          u2 = (if hasDot then dropWhile isDigit (tl u1) else u1)
      in if take 8 u = ''Infinity'' then (if sg < 0 then NegInf else PosInf)
         else if ip = [] \<and> fp = [] then NaN
         else Fin (scale10 (real_of_int sg *
                      (real (digitsVal ip) + real (digitsVal fp) / 10 ^ length fp))
                    (readExponent u2)))"

definition cleanCurrency :: "string \<Rightarrow> string" where
  \<comment> \<open>\<open>.replace(/,/g, '').replace(/[^\d.-]/g, '')\<close>\<close>
  "cleanCurrency v =
     filter (\<lambda>c. isDigit c \<or> c = CHR ''.'' \<or> c = CHR ''-'') (filter (\<lambda>c. c \<noteq> CHR '','') v)"

definition parseCurrency :: "string option \<Rightarrow> real" where
  \<comment> \<open>The fields of a row are strings, so the branch for a value that is a number is not
     taken. The cleaned text holds digits, dots and minus signs only, so that \<open>parseFloat\<close>
     reads a finite number or NaN from it (lemma \<open>parseFloat_cleanCurrency\<close>): the
     branches for the infinities are never taken.\<close>
  "parseCurrency val =
     (case val of
        None \<Rightarrow> 0
      | Some v \<Rightarrow>
          if v = [] then 0
          else (case parseFloat (cleanCurrency v) of
                  Fin num \<Rightarrow> num | NaN \<Rightarrow> 0 | PosInf \<Rightarrow> 0 | NegInf \<Rightarrow> 0))"

subsection \<open>Whole numbers in text, and splitting\<close>

definition isHexDigit :: "char \<Rightarrow> bool" where
  "isHexDigit c =
     (let n = (of_char c :: nat)
      in (48 \<le> n \<and> n \<le> 57) \<or> (65 \<le> n \<and> n \<le> 70) \<or> (97 \<le> n \<and> n \<le> 102))"

definition hexVal :: "char \<Rightarrow> nat" where
  "hexVal c =
     (let n = (of_char c :: nat)
      in if n \<le> 57 then n - 48 else if n \<le> 70 then n - 55 else n - 87)"

definition parseInt :: "string \<Rightarrow> int option" where
  \<comment> \<open>\<open>parseInt(text)\<close> with no radix: white space, a sign, then digits; after \<open>0x\<close> the
     digits are hexadecimal. \<open>None\<close> is NaN.\<close>
  "parseInt s =
     (let (sg, u) = readSign (dropWhile isSpace s)
      in case u of
           z # x # r \<Rightarrow>
             if z = CHR ''0'' \<and> (x = CHR ''x'' \<or> x = CHR ''X'') then
               (let hs = takeWhile isHexDigit r
                in if hs = [] then None
                   else Some (sg * int (foldl (\<lambda>n c. 16 * n + hexVal c) 0 hs)))
             else (let ds = takeWhile isDigit u
                   in if ds = [] then None else Some (sg * int (digitsVal ds)))
         | _ \<Rightarrow> (let ds = takeWhile isDigit u
                 in if ds = [] then None else Some (sg * int (digitsVal ds))))"

fun split1 :: "(char \<Rightarrow> bool) \<Rightarrow> string \<Rightarrow> string list" where
  \<comment> \<open>the fields between single separator characters\<close>
  "split1 P [] = [[]]"
| "split1 P (c # cs) =
     (if P c then [] # split1 P cs
      else (case split1 P cs of [] \<Rightarrow> [[c]] | f # fs \<Rightarrow> (c # f) # fs))"

definition isDateSep :: "char \<Rightarrow> bool" where
  "isDateSep c = (c = CHR ''-'' \<or> c = CHR ''/'' \<or> c = CHR ''.'' \<or> c = CHR '','' \<or> isSpace c)"

definition splitDateParts :: "string \<Rightarrow> string list" where
  \<comment> \<open>\<open>.split(/[-/.\s,]+/)\<close>: a run of separators separates once\<close>
  "splitDateParts s = split1 isDateSep (collapseRuns isDateSep (CHR ''-'') False s)"

section \<open>Dates in text\<close>

subsection \<open>The calendar\<close>

definition daysFromCivil :: "int \<Rightarrow> int \<Rightarrow> int \<Rightarrow> int" where
  \<comment> \<open>the day number of a day of the proleptic Gregorian calendar, month from 1 to 12\<close>
  "daysFromCivil y m d =
     (let y1 = (if m \<le> 2 then y - 1 else y);
          era = y1 div 400;
          yoe = y1 - era * 400;
          doy = (153 * (if m > 2 then m - 3 else m + 9) + 2) div 5 + d - 1;
          doe = yoe * 365 + yoe div 4 - yoe div 100 + doy
      in era * 146097 + doe - 719468)"

definition civilFromDays :: "int \<Rightarrow> int \<times> int \<times> int" where
  \<comment> \<open>year, month from 1 to 12 and day of the month of a day number\<close>
  "civilFromDays z0 =
     (let z = z0 + 719468;
          era = z div 146097;
          doe = z - era * 146097;
          yoe = (doe - doe div 1460 + doe div 36524 - doe div 146096) div 365;
          doy = doe - (365 * yoe + yoe div 4 - yoe div 100);
          mp = (5 * doy + 2) div 153;
          d = doy - (153 * mp + 2) div 5 + 1;
          m = (if mp < 10 then mp + 3 else mp - 9)
      in (if m \<le> 2 then yoe + era * 400 + 1 else yoe + era * 400, m, d))"

definition getFullYear :: "Date \<Rightarrow> int" where
  "getFullYear d = fst (civilFromDays (d div 86400000))"

definition newDate :: "int \<Rightarrow> int \<Rightarrow> int \<Rightarrow> Date option" where
  \<comment> \<open>\<open>new Date(year, monthIndex, day)\<close>: local midnight; a month index or a day beyond its
     range carries over; beyond 100 million days from the epoch the date is invalid\<close>
  "newDate y mi d =
     (let yr = (if 0 \<le> y \<and> y \<le> 99 then 1900 + y else y);
          t = (daysFromCivil (yr + mi div 12) (mi mod 12 + 1) 1 + d - 1) * 86400000
      in if \<bar>t\<bar> \<le> 8640000000000000 then Some t else None)"

definition newDateOpt :: "int option \<Rightarrow> int option \<Rightarrow> int option \<Rightarrow> Date option" where
  \<comment> \<open>the same on the results of \<open>parseInt\<close>: NaN in any place gives an invalid date\<close>
  "newDateOpt y mi d =
     (case y of None \<Rightarrow> None | Some y' \<Rightarrow>
        (case mi of None \<Rightarrow> None | Some mi' \<Rightarrow>
           (case d of None \<Rightarrow> None | Some d' \<Rightarrow> newDate y' mi' d')))"

subsection \<open>The environment\<close>

text \<open>
  What the pipeline takes from outside its own text is an argument of the model:
  \<^item> \<open>nativeDate\<close> is \<open>new Date(text)\<close>, whose reading of a text is left to the JavaScript
    engine; \<open>None\<close> is an invalid date;
  \<^item> \<open>parseFmt text pattern\<close> is \<open>parse(text, pattern, new Date())\<close> of date-fns, \<open>None\<close>
    when the result is invalid or the call throws;
  \<^item> \<open>format d pattern\<close> is \<open>format\<close> of date-fns on a valid date;
  \<^item> \<open>localeCompare a b\<close> is \<open>a.localeCompare(b)\<close>;
  \<^item> \<open>random_id k\<close> is the text \<open>Math.random().toString(36).substr(2, 9)\<close> of the
    \<open>k\<close>-th shift that is pushed, counted from 0;
  \<^item> \<open>startOfToday\<close> is local midnight of the day of the run.
\<close>

record Env =
  nativeDate :: "string \<Rightarrow> Date option"
  parseFmt :: "string \<Rightarrow> string \<Rightarrow> Date option"
  format :: "Date \<Rightarrow> string \<Rightarrow> string"
  localeCompare :: "string \<Rightarrow> string \<Rightarrow> int"
  random_id :: "nat \<Rightarrow> string"
  startOfToday :: Date

subsection \<open>robustParseDate\<close>

definition isLineTerminator :: "char \<Rightarrow> bool" where
  "isLineTerminator c = ((of_char c :: nat) = 10 \<or> (of_char c :: nat) = 13)"

definition stripQuotes :: "string \<Rightarrow> string" where
  \<comment> \<open>\<open>.replace(/^"(.*)"$/, '$1')\<close>: the dot matches no line terminator\<close>
  "stripQuotes s =
     (if 2 \<le> length s \<and> hd s = CHR 0x22 \<and> last s = CHR 0x22
         \<and> list_all (\<lambda>c. \<not> isLineTerminator c) (butlast (tl s))
      then butlast (tl s) else s)"

definition dateFormats :: "string list" where
  "dateFormats = [''yyyy-MM-dd'', ''dd/MM/yyyy'', ''MM/dd/yyyy'', ''d/M/yyyy'', ''dd-MM-yyyy'',
                  ''dd.MM.yyyy'', ''MMMM d, yyyy'', ''MMM d, yyyy'']"

fun firstFormat :: "Env \<Rightarrow> string \<Rightarrow> string list \<Rightarrow> Date option" where
  "firstFormat env cleaned [] = None"
| "firstFormat env cleaned (f # fs) =
     (case parseFmt env cleaned f of
        None \<Rightarrow> firstFormat env cleaned fs
      | Some d \<Rightarrow> if getFullYear d > 2000 then Some d else firstFormat env cleaned fs)"

definition over1000 :: "int option \<Rightarrow> bool" where
  "over1000 p = (case p of None \<Rightarrow> False | Some v \<Rightarrow> v > 1000)"

definition splitFallback :: "string \<Rightarrow> Date option" where
  "splitFallback cleaned =
     (let parts = splitDateParts cleaned
      in if length parts \<ge> 3 then
           (let p0 = parseInt (parts ! 0);
                p1 = parseInt (parts ! 1);
                p2 = parseInt (parts ! 2);
                yearFirst = (if over1000 p0 then newDateOpt p0 (map_option (\<lambda>v. v - 1) p1) p2
                             else None);
                yearLast = (if over1000 p2 then newDateOpt p2 (map_option (\<lambda>v. v - 1) p1) p0
                            else None)
            in case yearFirst of Some d \<Rightarrow> Some d | None \<Rightarrow> yearLast)
         else None)"

definition robustParseDate :: "Env \<Rightarrow> string \<Rightarrow> Date option" where
  \<comment> \<open>\<open>types.ts\<close>, lines 510 to 539\<close>
  "robustParseDate env dateStr =
     (if dateStr = [] then None
      else (let cleaned = collapseSpaces (stripQuotes (trim dateStr))
            in case nativeDate env cleaned of
                 Some native \<Rightarrow> Some native
               | None \<Rightarrow>
                   (case firstFormat env cleaned dateFormats of
                      Some d \<Rightarrow> Some d
                    | None \<Rightarrow> splitFallback cleaned)))"

section \<open>The pipeline\<close>

subsection \<open>Rows, the column mapping, the cleansing log\<close>

type_synonym AttendanceRecord = "string \<rightharpoonup> string"

text \<open>
  \<open>ColumnMapping\<close>: the header of each logical field. The fields carry the suffix
  \<open>_col\<close> here; \<open>penalty\<close> is optional in the source.
\<close>

record ColumnMapping =
  name_col :: string
  date_col :: string
  checkIn_col :: string
  checkOut_col :: string
  paid_col :: string
  penalty_col :: "string option"

datatype LogType = MIDNIGHT_ADJUST | HEADER_FIX | TIME_INTERPOLATION | NAME_NORMALIZATION

record CleansingLog =
  log_type :: LogType
  message :: string

subsection \<open>Objects used as dictionaries\<close>

text \<open>
  An object that the code fills key by key is the list of its entries in the order of
  insertion. \<open>Object.entries\<close> and \<open>Object.values\<close> enumerate the keys that are array
  indices first, in ascending order, and then the other keys in the order of insertion.

  Every such object inherits the properties of \<open>Object.prototype\<close>. A read \<open>obj[k]\<close> of
  a key the object does not own finds the inherited value, a function or the prototype
  itself, when \<open>k\<close> is one of \<open>inheritedKeys\<close>; the test \<open>!obj[k]\<close> then fails, no
  entry is made, and the writes that follow go to the inherited value and not to the
  object. The keys of \<open>grouped\<close> hold the character \<open>|\<close>, which none of these names
  does (lemma \<open>group_key_own\<close>); the name of an employee can be one of them. The rows
  are read by the column names of the mapping, which are taken to be none of these names.
\<close>

type_synonym 'v jsobj = "(string \<times> 'v) list"

definition objGet :: "'v jsobj \<Rightarrow> string \<Rightarrow> 'v option" where
  \<comment> \<open>the value of an own property\<close>
  "objGet obj k = map_of obj k"

definition inheritedKeys :: "string list" where
  "inheritedKeys =
     [''constructor'', ''__defineGetter__'', ''__defineSetter__'', ''hasOwnProperty'',
      ''__lookupGetter__'', ''__lookupSetter__'', ''isPrototypeOf'',
      ''propertyIsEnumerable'', ''toString'', ''valueOf'', ''__proto__'',
      ''toLocaleString'']"

definition inherits :: "'v jsobj \<Rightarrow> string \<Rightarrow> bool" where
  \<comment> \<open>\<open>obj[k]\<close> is an inherited value\<close>
  "inherits obj k = (objGet obj k = None \<and> k \<in> set inheritedKeys)"

definition objSet :: "'v jsobj \<Rightarrow> string \<Rightarrow> 'v \<Rightarrow> 'v jsobj" where
  \<comment> \<open>a known key keeps its place, a new key goes to the end\<close>
  "objSet obj k v =
     (if k \<in> fst ` set obj then map (\<lambda>(k', v'). if k' = k then (k', v) else (k', v')) obj
      else obj @ [(k, v)])"

definition isArrayIndex :: "string \<Rightarrow> bool" where
  \<comment> \<open>the canonical decimal text of a whole number below \<open>2^32 - 1\<close>\<close>
  "isArrayIndex k =
     (k \<noteq> [] \<and> list_all isDigit k \<and> (k = ''0'' \<or> hd k \<noteq> CHR ''0'')
      \<and> digitsVal k < 4294967295)"

definition objEntries :: "'v jsobj \<Rightarrow> (string \<times> 'v) list" where
  "objEntries obj =
     sort_key (\<lambda>(k, v). digitsVal k) (filter (\<lambda>(k, v). isArrayIndex k) obj)
       @ filter (\<lambda>(k, v). \<not> isArrayIndex k) obj"

definition objValues :: "'v jsobj \<Rightarrow> 'v list" where
  "objValues obj = map snd (objEntries obj)"

subsection \<open>Grouping the rows by employee and day\<close>

text \<open>
  The first loop of \<open>processPayroll\<close> (\<open>types.ts\<close>, lines 555 to 580). A group is the
  array of its rows with the two properties the code attaches to the array.
\<close>

record Group =
  displayName :: string
  parsedDate :: Date
  records :: "AttendanceRecord list"

definition dateFailure :: "string \<Rightarrow> string \<Rightarrow> CleansingLog" where
  "dateFailure nameVal dateVal =
     \<lparr>log_type = TIME_INTERPOLATION,
      message = ''Skipping record for '' @ nameVal @ '' due to unparseable date: ''
                  @ [CHR 0x22] @ dateVal @ [CHR 0x22]\<rparr>"

definition groupStep ::
  "Env \<Rightarrow> ColumnMapping \<Rightarrow> Group jsobj \<times> CleansingLog list \<Rightarrow> AttendanceRecord
     \<Rightarrow> Group jsobj \<times> CleansingLog list" where
  "groupStep env mapping st record =
     (let nameVal = collapseSpaces (trim (orEmpty (record (name_col mapping))))
      in if nameVal = [] \<or> toLowerCase nameVal = ''name''
            \<or> toLowerCase nameVal = ''employee_name'' then st
         else
           (let dateVal = trim (orEmpty (record (date_col mapping)))
            in if dateVal = [] then st
               else
                 (case robustParseDate env dateVal of
                    None \<Rightarrow> (fst st, snd st @ [dateFailure nameVal dateVal])
                  | Some dateObj \<Rightarrow>
                      (let normDate = format env dateObj ''yyyy-MM-dd'';
                           key = toLowerCase nameVal @ ''|'' @ normDate;
                           g = (case objGet (fst st) key of
                                  None \<Rightarrow> \<lparr>displayName = nameVal, parsedDate = dateObj,
                                            records = []\<rparr>
                                | Some g0 \<Rightarrow> g0)
                       in (objSet (fst st) key (g\<lparr>records := records g @ [record]\<rparr>),
                           snd st)))))"

definition groupRows ::
  "Env \<Rightarrow> ColumnMapping \<Rightarrow> AttendanceRecord list \<Rightarrow> Group jsobj \<times> CleansingLog list" where
  "groupRows env mapping rawRecords = foldl (groupStep env mapping) ([], []) rawRecords"

text \<open>The name and the date text that the first loop reads from a row.\<close>

definition nameOf :: "ColumnMapping \<Rightarrow> AttendanceRecord \<Rightarrow> string" where
  "nameOf mapping record = collapseSpaces (trim (orEmpty (record (name_col mapping))))"

definition dateTextOf :: "ColumnMapping \<Rightarrow> AttendanceRecord \<Rightarrow> string" where
  "dateTextOf mapping record = trim (orEmpty (record (date_col mapping)))"

definition namedRow :: "ColumnMapping \<Rightarrow> AttendanceRecord \<Rightarrow> bool" where
  "namedRow mapping record =
     (nameOf mapping record \<noteq> [] \<and> toLowerCase (nameOf mapping record) \<noteq> ''name''
      \<and> toLowerCase (nameOf mapping record) \<noteq> ''employee_name'')"

subsection \<open>One shift for each group\<close>

text \<open>
  The second loop (\<open>types.ts\<close>, lines 582 to 649), for one group; the identifier that
  \<open>Math.random\<close> gives is an argument.
\<close>

definition penaltyKey :: "ColumnMapping \<Rightarrow> string" where
  \<comment> \<open>\<open>mapping.penalty || 'Penalty'\<close>\<close>
  "penaltyKey mapping =
     (case penalty_col mapping of None \<Rightarrow> ''Penalty'' | Some k \<Rightarrow> if k = [] then ''Penalty'' else k)"

definition checkInTimes :: "ColumnMapping \<Rightarrow> Group \<Rightarrow> TimeComponents list" where
  "checkInTimes mapping g =
     List.map_filter (\<lambda>r. extractTimeComponents (r (checkIn_col mapping))) (records g)"

definition checkOutTimes :: "ColumnMapping \<Rightarrow> Group \<Rightarrow> TimeComponents list" where
  "checkOutTimes mapping g =
     List.map_filter (\<lambda>r. extractTimeComponents (r (checkOut_col mapping))) (records g)"

definition dailyPaid :: "ColumnMapping \<Rightarrow> Group \<Rightarrow> real" where
  "dailyPaid mapping g =
     foldl (\<lambda>sum r. sum + parseCurrency (r (paid_col mapping))) 0 (records g)"

definition manualPenaltyOf :: "ColumnMapping \<Rightarrow> Group \<Rightarrow> real" where
  "manualPenaltyOf mapping g =
     foldl (\<lambda>sum r. sum + parseCurrency (r (penaltyKey mapping))) 0 (records g)"

definition onDate :: "Date \<Rightarrow> TimeComponents \<Rightarrow> Date" where
  "onDate dateObj t = setTimeOnDate dateObj (hours t) (minutes t) (seconds t)"

definition actualInOf :: "Date \<Rightarrow> TimeComponents \<Rightarrow> TimeComponents list \<Rightarrow> Date" where
  \<comment> \<open>\<open>Math.min\<close> over the check-ins, of which there is at least one\<close>
  "actualInOf dateObj t ts = foldl min (onDate dateObj t) (map (onDate dateObj) ts)"

definition actualOutOf :: "Date \<Rightarrow> Date \<Rightarrow> TimeComponents list \<Rightarrow> Date" where
  \<comment> \<open>lines 609 and 610\<close>
  "actualOutOf dateObj actIn outs =
     (let out0 = (case outs of
                    [] \<Rightarrow> addDays actIn 0.375
                  | t # ts \<Rightarrow> foldl max (onDate dateObj t) (map (onDate dateObj) ts))
      in if out0 < actIn then addDays out0 1 else out0)"

definition placeholderShift :: "Env \<Rightarrow> ColumnMapping \<Rightarrow> string \<Rightarrow> Group \<Rightarrow> DayShift" where
  \<comment> \<open>lines 594 to 603\<close>
  "placeholderShift env mapping i g =
     \<lparr>shift_id = i, date = format env (parsedDate g) ''yyyy-MM-dd'', name = displayName g,
      actualIn = parsedDate g, actualOut = parsedDate g, shiftType = A,
      shiftStart = parsedDate g, latenessMinutes = 0, earlyMinutes = 0, workHours = 0,
      durationHours = 0, otHours = 0, otPay = 0, standardPay = 0, attendancePenalty = 0,
      manualPenalty = manualPenaltyOf mapping g, manualAdjustment = 0, penaltyWaiver = 0,
      adjustmentNote = None, netPay = 0, amountPaid = dailyPaid mapping g,
      balanceRemaining = Fin (- dailyPaid mapping g)\<rparr>"

definition workedShift ::
  "Env \<Rightarrow> ColumnMapping \<Rightarrow> string \<Rightarrow> Group \<Rightarrow> TimeComponents \<Rightarrow> TimeComponents list \<Rightarrow> DayShift"
  where
  \<comment> \<open>lines 605 to 648, for the check-ins \<open>t # ts\<close>\<close>
  "workedShift env mapping i g t ts =
     (let dateObj = parsedDate g;
          actIn = actualInOf dateObj t ts;
          actOut = actualOutOf dateObj actIn (checkOutTimes mapping g);
          (sType, sStart) = classifyShift actIn;
          late = latenessOf actIn sStart;
          penalty = penaltyOf late;
          rawWorkHours = real_of_int (actOut - actIn) / (1000 * 60 * 60);
          duration = max 0 (rawWorkHours - 1);
          ot = max 0 (rawWorkHours - 9);
          otP = ot * 1.56;
          mp = manualPenaltyOf mapping g;
          net = 10.0 + otP - penalty - mp
      in \<lparr>shift_id = i, date = format env dateObj ''yyyy-MM-dd'', name = displayName g,
          actualIn = actIn, actualOut = actOut, shiftType = sType, shiftStart = sStart,
          latenessMinutes = late, earlyMinutes = max 0 ((9 - rawWorkHours) * 60),
          workHours = rawWorkHours, durationHours = duration, otHours = ot, otPay = otP,
          standardPay = 10.0, attendancePenalty = penalty, manualPenalty = mp,
          manualAdjustment = 0, penaltyWaiver = 0, adjustmentNote = None, netPay = Fin net,
          amountPaid = dailyPaid mapping g,
          balanceRemaining = Fin (net - dailyPaid mapping g)\<rparr>)"

definition shiftOfGroup :: "Env \<Rightarrow> ColumnMapping \<Rightarrow> string \<Rightarrow> Group \<Rightarrow> DayShift" where
  "shiftOfGroup env mapping i g =
     (case checkInTimes mapping g of
        [] \<Rightarrow> placeholderShift env mapping i g
      | t # ts \<Rightarrow> workedShift env mapping i g t ts)"

definition buildShifts :: "Env \<Rightarrow> ColumnMapping \<Rightarrow> Group jsobj \<Rightarrow> DayShift list" where
  \<comment> \<open>one push for each entry of \<open>grouped\<close>, the \<open>k\<close>-th with the \<open>k\<close>-th identifier\<close>
  "buildShifts env mapping grouped =
     map (\<lambda>(k, g). shiftOfGroup env mapping (random_id env k) g)
         (enumerate 0 (objValues grouped))"

subsection \<open>Aggregation and the result\<close>

text \<open>
  The records of \<open>types.ts\<close>. Where a field name of \<open>EmployeeSummary\<close> or \<open>MonthlyStat\<close>
  is also one of \<open>DayShift\<close>, it carries the prefix \<open>emp_\<close> or \<open>month_\<close>.
\<close>

record ShiftCounts =
  count_A :: int
  count_B :: int
  count_C :: int

record EmployeeSummary =
  emp_name :: string
  workDays :: int
  shiftCounts :: ShiftCounts
  totalStandardPay :: real
  totalOTPay :: real
  totalAttendancePenalties :: real
  totalManualPenalties :: real
  totalManualAdjustments :: real
  totalPenaltyWaivers :: real
  netSalary :: number
  emp_amountPaid :: real
  netRemaining :: number
  rank :: "int option"
  penaltyFreeDays :: int

record MonthlyStat =
  month :: string
  daysWorked :: int
  month_standardPay :: real
  month_otPay :: real
  penalties :: real
  month_netPay :: number
  totalPaid :: real

record StrategicInsights =
  mostReliable :: "string \<times> int"
  topLateOffender :: "string \<times> real"
  penaltyRecoveryRate :: real
  totalOTHours :: real
  shiftAUsage :: real
  shiftBUsage :: real
  shiftCUsage :: real
  perfectAttendanceStaff :: "string list"
  totalFutureLiability :: number

record PayrollResult =
  summaries :: "EmployeeSummary list"
  totalStandardOwed :: real
  totalOTPayout :: real
  totalPenalties :: real
  totalManualAdjustments_all :: real
  totalPenaltyWaivers_all :: real
  totalNetOwed :: number
  totalPaidDisbursed :: real
  totalRemainingBalance :: number
  totalDaysWorked :: int
  totalLatenessMins :: int
  efficiencyScore :: real
  monthlyStats :: "MonthlyStat list"
  insights :: StrategicInsights
  detailedLogs :: "DayShift list"
  cleansingLogs :: "CleansingLog list"
  dateRange :: "string \<times> string"

datatype Failure = RangeError | TypeError

text \<open>The state of the loop over the shifts (\<open>types.ts\<close>, lines 651 to 699).\<close>

record AggState =
  minDate :: "Date option"
  maxDate :: "Date option"
  empMap :: "EmployeeSummary jsobj"
  monthMap :: "MonthlyStat jsobj"
  futureLiability :: number

definition newSummary :: "string \<Rightarrow> EmployeeSummary" where
  "newSummary n =
     \<lparr>emp_name = n, workDays = 0, shiftCounts = \<lparr>count_A = 0, count_B = 0, count_C = 0\<rparr>,
      totalStandardPay = 0, totalOTPay = 0, totalAttendancePenalties = 0,
      totalManualPenalties = 0, totalManualAdjustments = 0, totalPenaltyWaivers = 0,
      netSalary = 0, emp_amountPaid = 0, netRemaining = 0, rank = None, penaltyFreeDays = 0\<rparr>"

definition newMonth :: "string \<Rightarrow> MonthlyStat" where
  "newMonth label =
     \<lparr>month = label, daysWorked = 0, month_standardPay = 0, month_otPay = 0, penalties = 0,
      month_netPay = 0, totalPaid = 0\<rparr>"

definition isWorked :: "DayShift \<Rightarrow> bool" where
  \<comment> \<open>\<open>shift.netPay > 0 || shift.workHours > 0\<close>\<close>
  "isWorked shift = (netPay shift > 0 \<or> workHours shift > 0)"

definition bumpCount :: "ShiftType \<Rightarrow> ShiftCounts \<Rightarrow> ShiftCounts" where
  "bumpCount t c =
     (case t of A \<Rightarrow> c\<lparr>count_A := count_A c + 1\<rparr>
              | B \<Rightarrow> c\<lparr>count_B := count_B c + 1\<rparr>
              | C \<Rightarrow> c\<lparr>count_C := count_C c + 1\<rparr>)"

definition addToSummary :: "DayShift \<Rightarrow> EmployeeSummary \<Rightarrow> EmployeeSummary" where
  "addToSummary shift emp =
     emp\<lparr>workDays := (if isWorked shift then workDays emp + 1 else workDays emp),
         totalStandardPay := totalStandardPay emp + standardPay shift,
         totalOTPay := totalOTPay emp + otPay shift,
         totalAttendancePenalties := totalAttendancePenalties emp + attendancePenalty shift,
         totalManualPenalties := totalManualPenalties emp + manualPenalty shift,
         netSalary := netSalary emp + netPay shift,
         emp_amountPaid := emp_amountPaid emp + amountPaid shift,
         netRemaining := netRemaining emp + balanceRemaining shift,
         shiftCounts := (if workHours shift > 0 then bumpCount (shiftType shift) (shiftCounts emp)
                         else shiftCounts emp),
         penaltyFreeDays := (if attendancePenalty shift = 0 \<and> isWorked shift
                             then penaltyFreeDays emp + 1 else penaltyFreeDays emp)\<rparr>"

definition addToMonth :: "DayShift \<Rightarrow> MonthlyStat \<Rightarrow> MonthlyStat" where
  "addToMonth shift m =
     m\<lparr>daysWorked := (if isWorked shift then daysWorked m + 1 else daysWorked m),
       month_standardPay := month_standardPay m + standardPay shift,
       month_otPay := month_otPay m + otPay shift,
       penalties := penalties m + attendancePenalty shift + manualPenalty shift,
       month_netPay := month_netPay m + netPay shift,
       totalPaid := totalPaid m + amountPaid shift\<rparr>"

definition aggStep :: "Env \<Rightarrow> AggState \<Rightarrow> DayShift \<Rightarrow> Failure + AggState" where
  \<comment> \<open>When \<open>empMap[shift.name]\<close> is an inherited value, it has no \<open>shiftCounts\<close>: line 682
     throws a TypeError for a shift with worked hours, and the other writes leave \<open>empMap\<close>
     as it is. Further down (line 686) \<open>format\<close> of date-fns throws a RangeError on an
     invalid date. Either error ends the run.\<close>
  "aggStep env st shift =
     (if inherits (empMap st) (name shift) \<and> workHours shift > 0 then Inl TypeError
      else
        (case nativeDate env (date shift) of
           None \<Rightarrow> Inl RangeError
         | Some shiftDate \<Rightarrow>
             (let emp = (case objGet (empMap st) (name shift) of
                           None \<Rightarrow> newSummary (name shift) | Some e \<Rightarrow> e);
                  monthKey = format env shiftDate ''yyyy-MM'';
                  m = (case objGet (monthMap st) monthKey of
                         None \<Rightarrow> newMonth (format env shiftDate ''MMMM yyyy'') | Some m0 \<Rightarrow> m0)
              in Inr \<lparr>minDate = (case minDate st of
                                   None \<Rightarrow> Some shiftDate
                                 | Some d \<Rightarrow> if shiftDate < d then Some shiftDate else Some d),
                      maxDate = (case maxDate st of
                                   None \<Rightarrow> Some shiftDate
                                 | Some d \<Rightarrow> if shiftDate > d then Some shiftDate else Some d),
                      empMap = (if inherits (empMap st) (name shift) then empMap st
                                else objSet (empMap st) (name shift) (addToSummary shift emp)),
                      monthMap = (if inherits (monthMap st) monthKey then monthMap st
                                  else objSet (monthMap st) monthKey (addToMonth shift m)),
                      futureLiability = (if shiftDate > startOfToday env
                                         then futureLiability st + netPay shift
                                         else futureLiability st)\<rparr>)))"

fun aggAll :: "Env \<Rightarrow> AggState \<Rightarrow> DayShift list \<Rightarrow> Failure + AggState" where
  "aggAll env st [] = Inr st"
| "aggAll env st (shift # rest) =
     (case aggStep env st shift of Inl e \<Rightarrow> Inl e | Inr st' \<Rightarrow> aggAll env st' rest)"

text \<open>
  \<open>Array.prototype.sort\<close> is stable. With a comparison function that orders its
  arguments consistently, its result is that of the stable insertion sort below.
\<close>

fun insertBy :: "('a \<Rightarrow> 'a \<Rightarrow> 'b::{zero, ord}) \<Rightarrow> 'a \<Rightarrow> 'a list \<Rightarrow> 'a list" where
  "insertBy cmp x [] = [x]"
| "insertBy cmp x (y # ys) = (if cmp x y < 0 then x # y # ys else y # insertBy cmp x ys)"

definition sortBy :: "('a \<Rightarrow> 'a \<Rightarrow> 'b::{zero, ord}) \<Rightarrow> 'a list \<Rightarrow> 'a list" where
  "sortBy cmp xs = foldl (\<lambda>acc x. insertBy cmp x acc) [] xs"

definition orOne :: "real \<Rightarrow> real" where
  \<comment> \<open>\<open>x || 1\<close>\<close>
  "orOne x = (if x = 0 then 1 else x)"

definition orNA :: "string \<Rightarrow> string" where
  \<comment> \<open>\<open>text || 'N/A'\<close>\<close>
  "orNA t = (if t = [] then ''N/A'' else t)"

definition bestBy :: "(EmployeeSummary \<Rightarrow> real) \<Rightarrow> EmployeeSummary list \<Rightarrow> EmployeeSummary option"
  where
  \<comment> \<open>\<open>list.reduce((a, b) => key(a) > key(b) ? a : b, list[0])\<close>; nothing for the empty list\<close>
  "bestBy key xs =
     (case xs of [] \<Rightarrow> None
               | x # _ \<Rightarrow> Some (foldl (\<lambda>a b. if key a > key b then a else b) x xs))"

definition usage :: "ShiftType \<Rightarrow> DayShift list \<Rightarrow> real" where
  "usage t dayShifts =
     real (length (filter (\<lambda>s. shiftType s = t \<and> workHours s > 0) dayShifts))
       / orOne (real (length (filter (\<lambda>s. workHours s > 0) dayShifts)))"

definition assemble ::
  "Env \<Rightarrow> DayShift list \<Rightarrow> CleansingLog list \<Rightarrow> AggState \<Rightarrow> PayrollResult" where
  \<comment> \<open>lines 701 to 739\<close>
  "assemble env dayShifts logs st =
     (let ranked = map (\<lambda>(k, e). e\<lparr>rank := Some (int k + 1)\<rparr>)
                   (enumerate 0 (sortBy (\<lambda>a b. netSalary b - netSalary a) (objValues (empMap st))));
          totalLateMins = foldl (\<lambda>a b. a + latenessMinutes b) 0 dayShifts;
          totalPen = foldl (\<lambda>a b. a + attendancePenalty b + manualPenalty b) 0 dayShifts;
          totalOT = foldl (\<lambda>a b. a + totalOTPay b) 0 ranked;
          totalNet = foldl (\<lambda>a b. a + netSalary b) 0 ranked;
          totalPd = foldl (\<lambda>a b. a + emp_amountPaid b) 0 ranked;
          workedDays = int (length (filter isWorked dayShifts));
          reliable = bestBy (\<lambda>e. real_of_int (penaltyFreeDays e)) ranked;
          offender = bestBy totalAttendancePenalties ranked
      in \<lparr>summaries = ranked,
          totalStandardOwed = foldl (\<lambda>a b. a + totalStandardPay b) 0 ranked,
          totalOTPayout = totalOT,
          totalPenalties = totalPen,
          totalManualAdjustments_all = 0,
          totalPenaltyWaivers_all = 0,
          totalNetOwed = totalNet,
          totalPaidDisbursed = totalPd,
          totalRemainingBalance = totalNet - Fin totalPd,
          totalDaysWorked = workedDays,
          totalLatenessMins = totalLateMins,
          efficiencyScore = 1 - totalPen / orOne (real_of_int (workedDays * 10)),
          monthlyStats = sortBy (\<lambda>a b. real_of_int (localeCompare env (month a) (month b)))
                           (objValues (monthMap st)),
          insights =
            \<lparr>mostReliable =
               (case reliable of None \<Rightarrow> (''N/A'', 0)
                               | Some e \<Rightarrow> (orNA (emp_name e), penaltyFreeDays e)),
             topLateOffender =
               (case offender of None \<Rightarrow> (''N/A'', 0)
                               | Some e \<Rightarrow> (orNA (emp_name e), totalAttendancePenalties e)),
             penaltyRecoveryRate = totalPen / orOne (totalPen + totalOT),
             totalOTHours = foldl (\<lambda>a b. a + otHours b) 0 dayShifts,
             shiftAUsage = usage A dayShifts,
             shiftBUsage = usage B dayShifts,
             shiftCUsage = usage C dayShifts,
             perfectAttendanceStaff =
               map emp_name (filter (\<lambda>e. totalAttendancePenalties e = 0 \<and> workDays e > 0) ranked),
             totalFutureLiability = futureLiability st\<rparr>,
          detailedLogs = dayShifts,
          cleansingLogs = logs,
          dateRange =
            ((case minDate st of None \<Rightarrow> ''N/A'' | Some d \<Rightarrow> format env d ''MMM d, yyyy''),
             (case maxDate st of None \<Rightarrow> ''N/A'' | Some d \<Rightarrow> format env d ''MMM d, yyyy''))\<rparr>)"

definition finish ::
  "Env \<Rightarrow> DayShift list \<Rightarrow> CleansingLog list \<Rightarrow> Failure + PayrollResult" where
  "finish env dayShifts logs =
     (case aggAll env \<lparr>minDate = None, maxDate = None, empMap = [], monthMap = [],
                        futureLiability = 0\<rparr> dayShifts of
        Inl e \<Rightarrow> Inl e
      | Inr st \<Rightarrow> Inr (assemble env dayShifts logs st))"

definition dayShifts :: "Env \<Rightarrow> AttendanceRecord list \<Rightarrow> ColumnMapping \<Rightarrow> DayShift list" where
  \<comment> \<open>the array \<open>dayShifts\<close> after the second loop\<close>
  "dayShifts env rawRecords mapping =
     buildShifts env mapping (fst (groupRows env mapping rawRecords))"

definition processPayroll ::
  "Env \<Rightarrow> AttendanceRecord list \<Rightarrow> ColumnMapping \<Rightarrow> Failure + PayrollResult" where
  \<comment> \<open>\<open>types.ts\<close>, lines 549 to 740\<close>
  "processPayroll env rawRecords mapping =
     finish env (dayShifts env rawRecords mapping) (snd (groupRows env mapping rawRecords))"

section \<open>Manager actions on the shift list\<close>

text \<open>
  \<open>toggleWaiver\<close> and \<open>addManagerNote\<close> are the handlers of the results view with the
  manual-penalty column (\<open>src/unnamed/part_001\<close>, lines 82 to 99); \<open>applyOtherPenalty\<close>
  and \<open>removePenalty\<close> are those of \<open>components/PayrollResults.tsx\<close>, lines 214 to 245.
  Each maps over the list held in the component state and rebuilds the addressed shift
  with an object spread, which copies every field that is not named. The answer of a
  \<open>prompt\<close> dialog is an argument: \<open>None\<close> when the dialog is cancelled.
\<close>

definition appendNote :: "string option \<Rightarrow> string \<Rightarrow> string" where
  \<comment> \<open>\<open>note ? `${note} | ${text}` : text\<close>: a missing or empty note is replaced\<close>
  "appendNote note txt =
     (case note of None \<Rightarrow> txt | Some n \<Rightarrow> if n = [] then txt else n @ '' | '' @ txt)"

definition toggleWaiver :: "string \<Rightarrow> DayShift list \<Rightarrow> DayShift list" where
  "toggleWaiver i prev = map (\<lambda>l.
     if shift_id l = i then
       (let currentlyWaived = (penaltyWaiver l > 0);
            newWaiverAmount = (if currentlyWaived then 0 else attendancePenalty l);
            newNet = Fin (standardPay l + otPay l - (attendancePenalty l - newWaiverAmount))
                       - manualAdjustment l
        in l\<lparr>penaltyWaiver := newWaiverAmount, netPay := newNet,
              balanceRemaining := newNet - Fin (amountPaid l)\<rparr>)
     else l) prev"

definition addManagerNote :: "string \<Rightarrow> string option \<Rightarrow> DayShift list \<Rightarrow> DayShift list" where
  "addManagerNote i note prev =
     (case note of
        None \<Rightarrow> prev
      | Some n \<Rightarrow> map (\<lambda>l. if shift_id l = i then l\<lparr>adjustmentNote := Some n\<rparr> else l) prev)"

definition applyOtherPenalty ::
  "string \<Rightarrow> string option \<Rightarrow> string option \<Rightarrow> DayShift list \<Rightarrow> DayShift list" where
  "applyOtherPenalty i amount reason prev =
     (case amount of
        None \<Rightarrow> prev
      | Some a \<Rightarrow>
          (let parsed = parseFloat a
           in if isNaN parsed then prev
              else
               (case reason of
                  None \<Rightarrow> prev
                | Some r \<Rightarrow>
                    if r = [] then prev
                    else map (\<lambda>log.
                      if shift_id log = i then
                        (let newManual = manualAdjustment log + parsed;
                             newNet = Fin (standardPay log + otPay log - attendancePenalty log
                                             + penaltyWaiver log) - newManual
                         in log\<lparr>manualAdjustment := newManual,
                                adjustmentNote := Some (appendNote (adjustmentNote log) r),
                                netPay := newNet,
                                balanceRemaining := newNet - Fin (amountPaid log)\<rparr>)
                      else log) prev)))"

definition removePenalty :: "string \<Rightarrow> string option \<Rightarrow> DayShift list \<Rightarrow> DayShift list" where
  "removePenalty i reason prev = map (\<lambda>l.
     if shift_id l = i then
       (if penaltyWaiver l > 0 then
          (let newNet = Fin (standardPay l + otPay l - attendancePenalty l)
                          - manualAdjustment l
           in l\<lparr>penaltyWaiver := 0, netPay := newNet,
                 balanceRemaining := newNet - Fin (amountPaid l)\<rparr>)
        else
          (case reason of
             None \<Rightarrow> l
           | Some r \<Rightarrow>
               (let newNet = Fin (standardPay l + otPay l) - manualAdjustment l
                in l\<lparr>penaltyWaiver := attendancePenalty l,
                      adjustmentNote := Some (appendNote (adjustmentNote l) (''Waived: '' @ r)),
                      netPay := newNet,
                      balanceRemaining := newNet - Fin (amountPaid l)\<rparr>)))
     else l) prev"

text \<open>
  A history of manager edits is a list of actions, applied from the left to the list the
  pipeline gave.
\<close>

datatype ManagerAction =
    ToggleWaiver string
  | AddManagerNote string "string option"
  | ApplyOtherPenalty string "string option" "string option"
  | RemovePenalty string "string option"

fun target :: "ManagerAction \<Rightarrow> string" where
  "target (ToggleWaiver i) = i"
| "target (AddManagerNote i note) = i"
| "target (ApplyOtherPenalty i amount reason) = i"
| "target (RemovePenalty i reason) = i"

fun applyAction :: "ManagerAction \<Rightarrow> DayShift list \<Rightarrow> DayShift list" where
  "applyAction (ToggleWaiver i) prev = toggleWaiver i prev"
| "applyAction (AddManagerNote i note) prev = addManagerNote i note prev"
| "applyAction (ApplyOtherPenalty i amount reason) prev = applyOtherPenalty i amount reason prev"
| "applyAction (RemovePenalty i reason) prev = removePenalty i reason prev"


subsection \<open>What the ledger is expected to keep\<close>

definition netFormula :: "DayShift \<Rightarrow> number" where
  "netFormula s = Fin (standardPay s + otPay s - (attendancePenalty s - penaltyWaiver s)
                         - manualPenalty s)
                    - manualAdjustment s"


definition unchangedOutsideEdits :: "DayShift \<Rightarrow> DayShift \<Rightarrow> bool" where
  \<comment> \<open>every field but \<open>penaltyWaiver\<close>, \<open>manualAdjustment\<close>, \<open>adjustmentNote\<close>, \<open>netPay\<close>
     and \<open>balanceRemaining\<close> is the same in both\<close>
  "unchangedOutsideEdits l l' =
     (shift_id l' = shift_id l \<and> name l' = name l \<and> date l' = date l
      \<and> actualIn l' = actualIn l \<and> actualOut l' = actualOut l
      \<and> shiftType l' = shiftType l \<and> shiftStart l' = shiftStart l
      \<and> latenessMinutes l' = latenessMinutes l \<and> earlyMinutes l' = earlyMinutes l
      \<and> workHours l' = workHours l \<and> durationHours l' = durationHours l
      \<and> otHours l' = otHours l \<and> otPay l' = otPay l \<and> standardPay l' = standardPay l
      \<and> attendancePenalty l' = attendancePenalty l \<and> manualPenalty l' = manualPenalty l
      \<and> amountPaid l' = amountPaid l)"

text \<open>
  A result read without the identifiers of its shifts: each \<open>shift_id\<close> of
  \<open>detailedLogs\<close> is replaced by the empty text, every other field is kept.
\<close>

definition eraseId :: "DayShift \<Rightarrow> DayShift" where
  "eraseId s = s\<lparr>shift_id := []\<rparr>"

definition withoutIds :: "PayrollResult \<Rightarrow> PayrollResult" where
  "withoutIds r = r\<lparr>detailedLogs := map eraseId (detailedLogs r)\<rparr>"

section \<open>An environment and a mapping for the examples\<close>

text \<open>
  The examples run in an environment where the engine reads the ISO form
  \<open>yyyy-MM-dd\<close> as midnight UTC, seen from a clock three hours ahead of UTC, and no other
  text; where \<open>parse\<close> of date-fns recognises nothing; where \<open>format\<close> knows the four
  patterns the pipeline uses; where texts are compared character by character; and
  where the day of the run is 1 June 2024. The mapping is \<open>FORCE_MAPPING\<close> of
  \<open>App.tsx\<close>.
\<close>

fun digitsOf :: "nat \<Rightarrow> string" where
  "digitsOf n = (if n < 10 then [char_of (48 + n)]
                 else digitsOf (n div 10) @ [char_of (48 + n mod 10)])"

declare digitsOf.simps [simp del]

definition padZero :: "nat \<Rightarrow> int \<Rightarrow> string" where
  "padZero w n = (let ds = digitsOf (nat n) in replicate (w - length ds) (CHR ''0'') @ ds)"

definition monthNames :: "string list" where
  "monthNames = [''January'', ''February'', ''March'', ''April'', ''May'', ''June'', ''July'',
                 ''August'', ''September'', ''October'', ''November'', ''December'']"

definition demoFormat :: "Date \<Rightarrow> string \<Rightarrow> string" where
  "demoFormat dt pattern =
     (case civilFromDays (dt div 86400000) of (y, m, d) \<Rightarrow>
        if pattern = ''yyyy-MM-dd'' then padZero 4 y @ ''-'' @ padZero 2 m @ ''-'' @ padZero 2 d
        else if pattern = ''yyyy-MM'' then padZero 4 y @ ''-'' @ padZero 2 m
        else if pattern = ''MMMM yyyy'' then monthNames ! nat (m - 1) @ '' '' @ padZero 4 y
        else if pattern = ''MMM d, yyyy'' then
          take 3 (monthNames ! nat (m - 1)) @ '' '' @ padZero 1 d @ '', '' @ padZero 4 y
        else [])"

definition demoNativeDate :: "string \<Rightarrow> Date option" where
  "demoNativeDate s =
     (if length s = 10 \<and> s ! 4 = CHR ''-'' \<and> s ! 7 = CHR ''-''
         \<and> list_all isDigit (take 4 s) \<and> list_all isDigit (take 2 (drop 5 s))
         \<and> list_all isDigit (drop 8 s)
      then (let y = int (digitsVal (take 4 s));
                m = int (digitsVal (take 2 (drop 5 s)));
                d = int (digitsVal (drop 8 s))
            in if civilFromDays (daysFromCivil y m d) = (y, m, d)
               then Some (daysFromCivil y m d * 86400000 + 3 * 3600000) else None)
      else None)"

fun compareText :: "string \<Rightarrow> string \<Rightarrow> int" where
  "compareText [] [] = 0"
| "compareText [] (y # ys) = - 1"
| "compareText (x # xs) [] = 1"
| "compareText (x # xs) (y # ys) =
     (if (of_char x :: nat) < of_char y then - 1
      else if (of_char x :: nat) > of_char y then 1 else compareText xs ys)"

definition demoEnv :: Env where
  "demoEnv =
     \<lparr>nativeDate = demoNativeDate, parseFmt = (\<lambda>text pattern. None), format = demoFormat,
      localeCompare = compareText, random_id = (\<lambda>k. ''id'' @ digitsOf k),
      startOfToday = 1717200000000\<rparr>"

definition FORCE_MAPPING :: ColumnMapping where
  "FORCE_MAPPING =
     \<lparr>name_col = ''Employee_Name'', date_col = ''Date'', checkIn_col = ''Check_In'',
      checkOut_col = ''Check_Out'', paid_col = ''Paid'', penalty_col = Some ''Penalty''\<rparr>"

text \<open>Rows for the examples, with the headers of \<open>FORCE_MAPPING\<close>.\<close>

definition noCheckoutRow :: AttendanceRecord where
  \<comment> \<open>arrival 11:05 on Monday 15 January 2024, no departure\<close>
  "noCheckoutRow = [''Employee_Name'' \<mapsto> ''Ali'', ''Date'' \<mapsto> ''2024-01-15'',
                    ''Check_In'' \<mapsto> ''11:05'']"

definition lateRow :: AttendanceRecord where
  \<comment> \<open>arrival 11:20, departure 19:00\<close>
  "lateRow = [''Employee_Name'' \<mapsto> ''Ali'', ''Date'' \<mapsto> ''2024-01-15'',
              ''Check_In'' \<mapsto> ''11:20'', ''Check_Out'' \<mapsto> ''19:00'']"

definition penalisedRow :: AttendanceRecord where
  \<comment> \<open>the same, with 2 in the manual-penalty column\<close>
  "penalisedRow = [''Employee_Name'' \<mapsto> ''Ali'', ''Date'' \<mapsto> ''2024-01-15'',
                   ''Check_In'' \<mapsto> ''11:20'', ''Check_Out'' \<mapsto> ''19:00'',
                   ''Penalty'' \<mapsto> ''2'']"

definition absentRow :: AttendanceRecord where
  \<comment> \<open>no punch at all; 2 in the manual-penalty column and 4 paid\<close>
  "absentRow = [''Employee_Name'' \<mapsto> ''Sara'', ''Date'' \<mapsto> ''2024-01-16'',
                ''Penalty'' \<mapsto> ''2'', ''Paid'' \<mapsto> ''4'']"

definition badDateRow :: AttendanceRecord where
  "badDateRow = [''Employee_Name'' \<mapsto> ''Ali'', ''Date'' \<mapsto> ''N/A'',
                 ''Check_In'' \<mapsto> ''11:05'']"

definition emptyDateRow :: AttendanceRecord where
  \<comment> \<open>the date cell is empty\<close>
  "emptyDateRow = [''Employee_Name'' \<mapsto> ''Ali'', ''Date'' \<mapsto> [],
                   ''Check_In'' \<mapsto> ''11:05'']"

definition futureRow :: AttendanceRecord where
  \<comment> \<open>a shift on 15 June 2024, after the day of the run of \<open>demoEnv\<close>\<close>
  "futureRow = [''Employee_Name'' \<mapsto> ''Ali'', ''Date'' \<mapsto> ''2024-06-15'',
                ''Check_In'' \<mapsto> ''10:00'', ''Check_Out'' \<mapsto> ''19:00'']"

text \<open>The shifts the pipeline makes of these rows, each row run alone.\<close>

definition noCheckoutShift :: DayShift where
  "noCheckoutShift =
     \<lparr>shift_id = ''id0'', date = ''2024-01-15'', name = ''Ali'',
      actualIn = 1705316700000, actualOut = 1705316700000, shiftType = C,
      shiftStart = 1705316400000, latenessMinutes = 5, earlyMinutes = 540,
      workHours = 0, durationHours = 0, otHours = 0, otPay = 0,
      standardPay = 10, attendancePenalty = 0, manualPenalty = 0,
      manualAdjustment = 0, penaltyWaiver = 0, adjustmentNote = None,
      netPay = Fin 10, amountPaid = 0, balanceRemaining = Fin 10\<rparr>"

definition lateShift :: DayShift where
  "lateShift =
     \<lparr>shift_id = ''id0'', date = ''2024-01-15'', name = ''Ali'',
      actualIn = 1705317600000, actualOut = 1705345200000, shiftType = C,
      shiftStart = 1705316400000, latenessMinutes = 20, earlyMinutes = 80,
      workHours = 23 / 3, durationHours = 20 / 3, otHours = 0, otPay = 0,
      standardPay = 10, attendancePenalty = 5, manualPenalty = 0,
      manualAdjustment = 0, penaltyWaiver = 0, adjustmentNote = None,
      netPay = Fin 5, amountPaid = 0, balanceRemaining = Fin 5\<rparr>"

definition penalisedShift :: DayShift where
  "penalisedShift = lateShift\<lparr>manualPenalty := 2, netPay := Fin 3, balanceRemaining := Fin 3\<rparr>"


definition absentShift :: DayShift where
  "absentShift =
     \<lparr>shift_id = ''id0'', date = ''2024-01-16'', name = ''Sara'',
      actualIn = 1705374000000, actualOut = 1705374000000, shiftType = A,
      shiftStart = 1705374000000, latenessMinutes = 0, earlyMinutes = 0,
      workHours = 0, durationHours = 0, otHours = 0, otPay = 0,
      standardPay = 0, attendancePenalty = 0, manualPenalty = 2,
      manualAdjustment = 0, penaltyWaiver = 0, adjustmentNote = None,
      netPay = 0, amountPaid = 4, balanceRemaining = Fin (- 4)\<rparr>"

definition twoShifts :: "DayShift list" where
  \<comment> \<open>what the pipeline makes of \<open>lateRow\<close> and \<open>absentRow\<close> run together\<close>
  "twoShifts = [lateShift, absentShift\<lparr>shift_id := ''id1''\<rparr>]"

text \<open>The groups that the first loop makes of \<open>penalisedRow\<close> and of \<open>absentRow\<close>.\<close>

definition penalisedGroup :: Group where
  "penalisedGroup = \<lparr>displayName = ''Ali'', parsedDate = 1705287600000, records = [penalisedRow]\<rparr>"

definition absentGroup :: Group where
  "absentGroup = \<lparr>displayName = ''Sara'', parsedDate = 1705374000000, records = [absentRow]\<rparr>"

text \<open>
  A second run: \<open>rerunEnv\<close> differs from \<open>demoEnv\<close> in the texts \<open>Math.random\<close> gives,
  \<open>laterEnv\<close> in the day of the run, which is 1 July 2024.
\<close>

definition rerunEnv :: Env where
  "rerunEnv = demoEnv\<lparr>random_id := (\<lambda>k. ''run2'' @ digitsOf k)\<rparr>"

definition laterEnv :: Env where
  "laterEnv = demoEnv\<lparr>startOfToday := 1719792000000\<rparr>"

section \<open>Arithmetic of numbers\<close>

lemma zero_number_Fin [simp]: "(0::number) = Fin 0"
  by (simp add: zero_number_def)

lemma Fin_minus [simp]: "Fin a - Fin b = Fin (a - b)"
  by (simp add: minus_number_def)

lemma isNaN_simps [simp]:
  "isNaN NaN" "\<not> isNaN (Fin a)" "\<not> isNaN PosInf" "\<not> isNaN NegInf"
  by (simp_all add: isNaN_def)

text \<open>
  \<open>parseFloat\<close> reads an infinity only from a text whose first character after the white
  space and the sign is the letter \<open>I\<close>. The text \<open>parseCurrency\<close> hands over has no
  letter, so that \<open>parseCurrency\<close> is \<open>isNaN(num) ? 0 : num\<close> as in the source.
\<close>

lemma readSign_set: "set (snd (readSign t)) \<subseteq> set t"
  by (auto simp: readSign_def split: list.split)

lemma Infinity_head: "take 8 u = ''Infinity'' \<Longrightarrow> CHR ''I'' \<in> set u"
  by (cases u) auto

lemma parseFloat_no_letter:
  assumes "\<forall>c \<in> set s. isDigit c \<or> c = CHR ''.'' \<or> c = CHR ''-''"
  shows "parseFloat s \<noteq> PosInf \<and> parseFloat s \<noteq> NegInf"
proof -
  obtain sg u where su: "readSign (dropWhile isSpace s) = (sg, u)"
    by (cases "readSign (dropWhile isSpace s)")
  have "set u \<subseteq> set (dropWhile isSpace s)"
    using readSign_set[of "dropWhile isSpace s"] su by simp
  then have sub: "set u \<subseteq> set s"
    using set_dropWhileD by fastforce
  have "\<not> (isDigit (CHR ''I'') \<or> CHR ''I'' = CHR ''.'' \<or> CHR ''I'' = CHR ''-'')"
    by (simp add: isDigit_def)
  then have "CHR ''I'' \<notin> set u"
    using assms sub by blast
  then have "take 8 u \<noteq> ''Infinity''"
    using Infinity_head by blast
  then show ?thesis
    by (simp add: parseFloat_def su Let_def)
qed

lemma parseFloat_cleanCurrency:
  "parseFloat (cleanCurrency v) \<noteq> PosInf \<and> parseFloat (cleanCurrency v) \<noteq> NegInf"
  by (rule parseFloat_no_letter) (simp add: cleanCurrency_def)

lemma parseCurrency_number:
  assumes "v \<noteq> []"
  shows "Fin (parseCurrency (Some v))
           = (let num = parseFloat (cleanCurrency v) in if isNaN num then 0 else num)"
  using assms parseFloat_cleanCurrency[of v]
  by (cases "parseFloat (cleanCurrency v)") (simp_all add: parseCurrency_def)

text \<open>The key of a group is never the name of an inherited property.\<close>

lemma group_key_own: "n @ ''|'' @ d \<notin> set inheritedKeys"
proof
  assume "n @ ''|'' @ d \<in> set inheritedKeys"
  moreover have "\<forall>k \<in> set inheritedKeys. CHR ''|'' \<notin> set k"
    by (simp add: inheritedKeys_def)
  ultimately show False by auto
qed

section \<open>Classification and penalty tiers\<close>

lemma hour_minute_split:
  fixes r :: int
  shows "(r div 3600000) * 60 + (r mod 3600000) div 60000 = r div 60000"
proof -
  define x where "x = r div 60000"
  have a: "r div 3600000 = x div 60"
    unfolding x_def using zdiv_zmult2_eq[of 60000 r 60] by simp
  have "r mod 3600000 = 60000 * (x mod 60) + r mod 60000"
    unfolding x_def using zmod_zmult2_eq[of 60 r 60000] by simp
  then have b: "(r mod 3600000) div 60000 = x mod 60"
    by simp
  show ?thesis unfolding a b x_def[symmetric] by simp
qed

lemma minutes_of_day: "totalMinutesOfDay d = (d mod 86400000) div 60000"
proof -
  have "d mod 3600000 = (d mod 86400000) mod 3600000"
    by (simp add: mod_mod_cancel)
  then show ?thesis
    unfolding totalMinutesOfDay_def getHours_def getMinutes_def
    using hour_minute_split[of "d mod 86400000"] by simp
qed

lemma nominal_start:
  "setTimeOnDate (startOfDayNative d) h 0 0 = d - d mod 86400000 + h * 3600000"
  by (simp add: setTimeOnDate_def startOfDayNative_def)

lemma workedShift_lateness:
  "latenessMinutes (workedShift env mapping i g t0 ts)
     = latenessOf (actualIn (workedShift env mapping i g t0 ts))
                  (shiftStart (workedShift env mapping i g t0 ts))"
  by (simp add: workedShift_def Let_def split: prod.split)

lemma workedShift_penalty:
  "attendancePenalty (workedShift env mapping i g t0 ts)
     = penaltyOf (latenessMinutes (workedShift env mapping i g t0 ts))"
  by (simp add: workedShift_def Let_def split: prod.split)

lemma workedShift_classified:
  "(shiftType (workedShift env mapping i g t ts), shiftStart (workedShift env mapping i g t ts))
     = classifyShift (actualIn (workedShift env mapping i g t ts))"
  by (simp add: workedShift_def Let_def split: prod.split)

text \<open>
  Claim C2. With \<open>m\<close> the minutes of the arrival past local midnight: below 630 the shift
  is of type A and starts at 10:00 of the day of the arrival; from 630 to 750, both
  included, it is of type C and starts at 11:00; above 750 it is of type B and starts at
  14:00, or at 15:00 when the arrival falls on a Thursday or a Friday. The minutes 10:30
  and 12:30 give type C. The type and the nominal start of a computed shift are those of
  its arrival.
\<close>

theorem classification:
  fixes d :: Date
  defines "m \<equiv> totalMinutesOfDay d"
  defines "midnight \<equiv> d - d mod 86400000"
  shows "m = (d mod 86400000) div 60000 \<and>
         (m < 630 \<longrightarrow> classifyShift d = (A, midnight + 10 * 3600000)) \<and>
         (630 \<le> m \<and> m \<le> 750 \<longrightarrow> classifyShift d = (C, midnight + 11 * 3600000)) \<and>
         (750 < m \<and> getDay d \<noteq> 4 \<and> getDay d \<noteq> 5
            \<longrightarrow> classifyShift d = (B, midnight + 14 * 3600000)) \<and>
         (750 < m \<and> (getDay d = 4 \<or> getDay d = 5)
            \<longrightarrow> classifyShift d = (B, midnight + 15 * 3600000)) \<and>
         (m = 630 \<or> m = 750 \<longrightarrow> fst (classifyShift d) = C) \<and>
         (shiftType (workedShift env mapping i g t ts),
          shiftStart (workedShift env mapping i g t ts))
           = classifyShift (actualIn (workedShift env mapping i g t ts))"
proof (intro conjI impI)
  show "m = (d mod 86400000) div 60000"
    unfolding m_def by (rule minutes_of_day)
next
  assume "m < 630"
  then show "classifyShift d = (A, midnight + 10 * 3600000)"
    unfolding m_def midnight_def by (simp add: classifyShift_def nominal_start)
next
  assume "630 \<le> m \<and> m \<le> 750"
  then show "classifyShift d = (C, midnight + 11 * 3600000)"
    unfolding m_def midnight_def by (simp add: classifyShift_def nominal_start)
next
  assume "750 < m \<and> getDay d \<noteq> 4 \<and> getDay d \<noteq> 5"
  then show "classifyShift d = (B, midnight + 14 * 3600000)"
    unfolding m_def midnight_def by (simp add: classifyShift_def nominal_start)
next
  assume "750 < m \<and> (getDay d = 4 \<or> getDay d = 5)"
  then show "classifyShift d = (B, midnight + 15 * 3600000)"
    unfolding m_def midnight_def by (simp add: classifyShift_def nominal_start)
next
  assume "m = 630 \<or> m = 750"
  then have "\<not> m < 630 \<and> m \<le> 750" by auto
  then show "fst (classifyShift d) = C"
    unfolding m_def by (simp add: classifyShift_def)
next
  show "(shiftType (workedShift env mapping i g t ts),
         shiftStart (workedShift env mapping i g t ts))
          = classifyShift (actualIn (workedShift env mapping i g t ts))"
    by (rule workedShift_classified)
qed

text \<open>
  The theorem at 09:59, 10:30, 11:05, 12:30 and 13:00 of Monday 15 January 2024 and at
  15:10 of Thursday 18 January 2024.
\<close>

theorem classification_witness:
  "totalMinutesOfDay 1705312740000 = 599
     \<and> classifyShift 1705312740000 = (A, 1705312800000) \<and>
   totalMinutesOfDay 1705314600000 = 630
     \<and> classifyShift 1705314600000 = (C, 1705316400000) \<and>
   totalMinutesOfDay 1705316700000 = 665
     \<and> classifyShift 1705316700000 = (C, 1705316400000) \<and>
   totalMinutesOfDay 1705321800000 = 750
     \<and> classifyShift 1705321800000 = (C, 1705316400000) \<and>
   totalMinutesOfDay 1705323600000 = 780 \<and> getDay 1705323600000 = 1
     \<and> classifyShift 1705323600000 = (B, 1705327200000) \<and>
   totalMinutesOfDay 1705590600000 = 910 \<and> getDay 1705590600000 = 4
     \<and> classifyShift 1705590600000 = (B, 1705590000000)"
  using classification[where d = 1705312740000] classification[where d = 1705314600000]
    classification[where d = 1705316700000] classification[where d = 1705321800000]
    classification[where d = 1705323600000] classification[where d = 1705590600000]
  by (simp add: totalMinutesOfDay_def getHours_def getMinutes_def getDay_def)

text \<open>
  Claim C3. The attendance penalty of a lateness of \<open>t\<close> minutes is 0 below 10, 3 from 10
  and below 20, 5 from 20 and below 60, and 10 from 60 on; it never decreases when the
  lateness grows; and it takes these values at 9, 10, 19, 20, 59 and 60. The lateness
  of a computed shift is not negative, and the penalty of the shift is the penalty of its
  lateness.
\<close>

theorem penalty_tiers:
  fixes t u :: int
  shows "(t < 10 \<longrightarrow> penaltyOf t = 0) \<and>
         (10 \<le> t \<and> t < 20 \<longrightarrow> penaltyOf t = 3) \<and>
         (20 \<le> t \<and> t < 60 \<longrightarrow> penaltyOf t = 5) \<and>
         (60 \<le> t \<longrightarrow> penaltyOf t = 10) \<and>
         (t \<le> u \<longrightarrow> penaltyOf t \<le> penaltyOf u) \<and>
         penaltyOf 9 = 0 \<and> penaltyOf 10 = 3 \<and> penaltyOf 19 = 3 \<and>
         penaltyOf 20 = 5 \<and> penaltyOf 59 = 5 \<and> penaltyOf 60 = 10 \<and>
         0 \<le> latenessMinutes (workedShift env mapping i g t0 ts) \<and>
         attendancePenalty (workedShift env mapping i g t0 ts)
           = penaltyOf (latenessMinutes (workedShift env mapping i g t0 ts))"
proof (intro conjI impI)
  show "0 \<le> latenessMinutes (workedShift env mapping i g t0 ts)"
    unfolding workedShift_lateness by (simp add: latenessOf_def)
next
  show "attendancePenalty (workedShift env mapping i g t0 ts)
          = penaltyOf (latenessMinutes (workedShift env mapping i g t0 ts))"
    by (rule workedShift_penalty)
qed (simp_all add: penaltyOf_def)

theorem penalty_tiers_witness:
  "(5::int) < 10 \<and> penaltyOf 5 = 0 \<and>
   (10::int) \<le> 15 \<and> (15::int) < 20 \<and> penaltyOf 15 = 3 \<and>
   (20::int) \<le> 30 \<and> (30::int) < 60 \<and> penaltyOf 30 = 5 \<and>
   (60::int) \<le> 75 \<and> penaltyOf 75 = 10 \<and>
   (15::int) \<le> 75 \<and> penaltyOf 15 \<le> penaltyOf 75"
  using penalty_tiers[of 5 5] penalty_tiers[of 15 75] penalty_tiers[of 30 30]
    penalty_tiers[of 75 75]
  by simp

section \<open>The examples, evaluated\<close>

lemma run_noCheckoutRow: "dayShifts demoEnv [noCheckoutRow] FORCE_MAPPING = [noCheckoutShift]"
  by code_simp

lemma run_lateRow: "dayShifts demoEnv [lateRow] FORCE_MAPPING = [lateShift]"
  by code_simp

lemma run_penalisedRow: "dayShifts demoEnv [penalisedRow] FORCE_MAPPING = [penalisedShift]"
  by code_simp



lemma groups_of_examples:
  "map (\<lambda>g. (displayName g, parsedDate g, length (records g)))
     (objValues (fst (groupRows demoEnv FORCE_MAPPING [penalisedRow])))
     = [(displayName penalisedGroup, parsedDate penalisedGroup, length (records penalisedGroup))]"
  "map (\<lambda>g. (displayName g, parsedDate g, length (records g)))
     (objValues (fst (groupRows demoEnv FORCE_MAPPING [absentRow])))
     = [(displayName absentGroup, parsedDate absentGroup, length (records absentGroup))]"
  by code_simp+

section \<open>Manager edits: what they may change\<close>

lemma frame_refl: "unchangedOutsideEdits l l"
  by (simp add: unchangedOutsideEdits_def)

lemma frame_map:
  assumes "\<And>l. shift_id l \<noteq> i \<Longrightarrow> f l = l" and "\<And>l. unchangedOutsideEdits l (f l)"
  shows "length (map f logs) = length logs \<and>
         (\<forall>k < length logs.
            (shift_id (logs ! k) \<noteq> i \<longrightarrow> map f logs ! k = logs ! k)
            \<and> unchangedOutsideEdits (logs ! k) (map f logs ! k))"
  using assms by simp

lemma toggleWaiver_frame:
  "length (toggleWaiver i logs) = length logs \<and>
         (\<forall>k < length logs.
            (shift_id (logs ! k) \<noteq> i \<longrightarrow> toggleWaiver i logs ! k = logs ! k)
            \<and> unchangedOutsideEdits (logs ! k) (toggleWaiver i logs ! k))"
  unfolding toggleWaiver_def
  by (rule frame_map) (simp_all add: unchangedOutsideEdits_def Let_def)

lemma addManagerNote_frame:
  "length (addManagerNote i nt logs) = length logs \<and>
         (\<forall>k < length logs.
            (shift_id (logs ! k) \<noteq> i \<longrightarrow> addManagerNote i nt logs ! k = logs ! k)
            \<and> unchangedOutsideEdits (logs ! k) (addManagerNote i nt logs ! k))"
proof (cases nt)
  case None
  then show ?thesis by (simp add: addManagerNote_def frame_refl)
next
  case (Some n)
  then have eq: "addManagerNote i nt logs
       = map (\<lambda>l. if shift_id l = i then l\<lparr>adjustmentNote := Some n\<rparr> else l) logs"
    by (simp add: addManagerNote_def)
  show ?thesis unfolding eq
    by (rule frame_map) (simp_all add: unchangedOutsideEdits_def)
qed

lemma removePenalty_frame:
  "length (removePenalty i reason logs) = length logs \<and>
         (\<forall>k < length logs.
            (shift_id (logs ! k) \<noteq> i \<longrightarrow> removePenalty i reason logs ! k = logs ! k)
            \<and> unchangedOutsideEdits (logs ! k) (removePenalty i reason logs ! k))"
  unfolding removePenalty_def
  by (rule frame_map) (simp_all add: unchangedOutsideEdits_def Let_def split: option.split)

lemma applyOtherPenalty_cases:
  "applyOtherPenalty i amount reason logs = logs \<or>
   (\<exists>parsed r. applyOtherPenalty i amount reason logs = map (\<lambda>log.
                      if shift_id log = i then
                        (let newManual = manualAdjustment log + parsed;
                             newNet = Fin (standardPay log + otPay log - attendancePenalty log
                                             + penaltyWaiver log) - newManual
                         in log\<lparr>manualAdjustment := newManual,
                                adjustmentNote := Some (appendNote (adjustmentNote log) r),
                                netPay := newNet,
                                balanceRemaining := newNet - Fin (amountPaid log)\<rparr>)
                      else log) logs)"
  by (auto simp: applyOtherPenalty_def Let_def split: option.split)

lemma applyOtherPenalty_frame:
  "length (applyOtherPenalty i amount reason logs) = length logs \<and>
         (\<forall>k < length logs.
            (shift_id (logs ! k) \<noteq> i \<longrightarrow> applyOtherPenalty i amount reason logs ! k = logs ! k)
            \<and> unchangedOutsideEdits (logs ! k) (applyOtherPenalty i amount reason logs ! k))"
proof -
  consider (same) "applyOtherPenalty i amount reason logs = logs"
    | (upd) parsed r where "applyOtherPenalty i amount reason logs = map (\<lambda>log.
                      if shift_id log = i then
                        (let newManual = manualAdjustment log + parsed;
                             newNet = Fin (standardPay log + otPay log - attendancePenalty log
                                             + penaltyWaiver log) - newManual
                         in log\<lparr>manualAdjustment := newManual,
                                adjustmentNote := Some (appendNote (adjustmentNote log) r),
                                netPay := newNet,
                                balanceRemaining := newNet - Fin (amountPaid log)\<rparr>)
                      else log) logs"
    using applyOtherPenalty_cases by blast
  then show ?thesis
  proof cases
    case same
    then show ?thesis by (simp add: frame_refl)
  next
    case upd
    show ?thesis unfolding upd
      by (rule frame_map) (simp_all add: unchangedOutsideEdits_def Let_def)
  qed
qed

text \<open>
  Claim C10. A manager action addressed to the identifier \<open>X\<close> (the waiver toggle of either
  results view, a manual adjustment, a note edit) keeps the length of the list, leaves
  every shift whose identifier is not \<open>X\<close> as it is, and changes in a shift at most the
  fields \<open>penaltyWaiver\<close>, \<open>manualAdjustment\<close>, \<open>adjustmentNote\<close>, \<open>netPay\<close> and
  \<open>balanceRemaining\<close>: identifier, name, date, arrival, departure, shift type, nominal
  start, lateness, early minutes, worked hours, duration, overtime hours and pay, standard
  pay, attendance penalty, manual penalty and amount paid stay as they were.
\<close>

theorem edits_frame:
  "length (applyAction a logs) = length logs \<and>
   (\<forall>k < length logs.
      (shift_id (logs ! k) \<noteq> target a \<longrightarrow> applyAction a logs ! k = logs ! k)
      \<and> unchangedOutsideEdits (logs ! k) (applyAction a logs ! k))"
proof (cases a)
  case (ToggleWaiver i)
  then show ?thesis using toggleWaiver_frame[of i logs] by simp
next
  case (AddManagerNote i nt)
  then show ?thesis using addManagerNote_frame[of i nt logs] by simp
next
  case (ApplyOtherPenalty i amount reason)
  then show ?thesis using applyOtherPenalty_frame[of i amount reason logs] by simp
next
  case (RemovePenalty i reason)
  then show ?thesis using removePenalty_frame[of i reason logs] by simp
qed



text \<open>The frame theorem at the list of two shifts, for a toggle addressed to the first.\<close>

theorem edits_frame_witness:
  "(1::nat) < length twoShifts \<and> shift_id (twoShifts ! 1) \<noteq> target (ToggleWaiver ''id0'') \<and>
   applyAction (ToggleWaiver ''id0'') twoShifts ! 1 = twoShifts ! 1 \<and>
   unchangedOutsideEdits (twoShifts ! 0) (applyAction (ToggleWaiver ''id0'') twoShifts ! 0)"
proof -
  have len: "(1::nat) < length twoShifts" "(0::nat) < length twoShifts"
    by (simp_all add: twoShifts_def)
  have other: "shift_id (twoShifts ! 1) \<noteq> target (ToggleWaiver ''id0'')"
    by (simp add: twoShifts_def)
  from edits_frame[of "ToggleWaiver ''id0''" twoShifts] len other
  show ?thesis by blast
qed

section \<open>Manager edits: cancelled dialogs\<close>









section \<open>The ledger invariant\<close>

lemma processPayroll_logs:
  assumes "processPayroll env rawRecords mapping = Inr r"
  shows "detailedLogs r = dayShifts env rawRecords mapping"
    and "cleansingLogs r = snd (groupRows env mapping rawRecords)"
  using assms
  by (auto simp: processPayroll_def finish_def assemble_def Let_def split: sum.splits)
















section \<open>Waiving and taking the waiver back\<close>

text \<open>
  Where the manual penalty is 0, waiving and taking the waiver back does return \<open>netPay\<close>
  and \<open>balanceRemaining\<close> to what they were.
\<close>

lemma toggle_round_trip:
  assumes "\<forall>l \<in> set logs. shift_id l = i \<longrightarrow>
             manualPenalty l = 0 \<and> penaltyWaiver l = 0 \<and> 0 \<le> attendancePenalty l
             \<and> netPay l = netFormula l \<and> balanceRemaining l = netPay l - Fin (amountPaid l)"
  shows "map netPay (toggleWaiver i (toggleWaiver i logs)) = map netPay logs"
    and "map balanceRemaining (toggleWaiver i (toggleWaiver i logs)) = map balanceRemaining logs"
  using assms
  by (auto simp: toggleWaiver_def netFormula_def Let_def)

text \<open>
  Claim C6 at a failing input. The run of \<open>penalisedRow\<close> gives a shift with attendance
  penalty 5, manual penalty 2 and \<open>netPay = 3\<close>. The toggle computes \<open>netPay\<close> without the
  manual penalty: waiving gives 10, and taking the waiver back gives 5, not 3.
\<close>

theorem toggle_twice_drifts:
  "dayShifts demoEnv [penalisedRow] FORCE_MAPPING = [penalisedShift] \<and>
   netPay penalisedShift = Fin 3 \<and> balanceRemaining penalisedShift = Fin 3 \<and>
   toggleWaiver ''id0'' [penalisedShift]
     = [penalisedShift\<lparr>penaltyWaiver := 5, netPay := Fin 10, balanceRemaining := Fin 10\<rparr>] \<and>
   toggleWaiver ''id0'' (toggleWaiver ''id0'' [penalisedShift])
     = [penalisedShift\<lparr>netPay := Fin 5, balanceRemaining := Fin 5\<rparr>]"
  by (simp add: run_penalisedRow toggleWaiver_def penalisedShift_def lateShift_def Let_def)

section \<open>Arrival and departure\<close>

text \<open>
  The arrival is the earliest check-in; with a check-out, the departure is the latest one,
  a day later when it comes before the arrival.
\<close>

lemma addDays_one: "addDays d 1 = d + 86400000"
  by (simp add: addDays_def toInteger_def)

lemma foldl_min_Min: "foldl min (x :: int) xs = Min (set (x # xs))"
proof (induction xs arbitrary: x)
  case Nil
  show ?case by simp
next
  case (Cons y ys)
  have "foldl min x (y # ys) = Min (set (min x y # ys))"
    using Cons.IH[of "min x y"] by simp
  also have "\<dots> = Min (set (x # y # ys))"
    by (cases "ys = []") (simp_all add: min.assoc)
  finally show ?case .
qed

lemma foldl_max_Max: "foldl max (x :: int) xs = Max (set (x # xs))"
proof (induction xs arbitrary: x)
  case Nil
  show ?case by simp
next
  case (Cons y ys)
  have "foldl max x (y # ys) = Max (set (max x y # ys))"
    using Cons.IH[of "max x y"] by simp
  also have "\<dots> = Max (set (x # y # ys))"
    by (cases "ys = []") (simp_all add: max.assoc)
  finally show ?case .
qed

lemma arrival_is_earliest:
  "actualInOf dateObj t ts = Min (set (map (onDate dateObj) (t # ts)))"
  by (simp add: actualInOf_def foldl_min_Min)

lemma departure_is_latest:
  "actualOutOf dateObj actIn (t # ts)
     = (if Max (set (map (onDate dateObj) (t # ts))) < actIn
        then Max (set (map (onDate dateObj) (t # ts))) + 86400000
        else Max (set (map (onDate dateObj) (t # ts))))"
  by (simp add: actualOutOf_def foldl_max_Max addDays_one Let_def)

lemma fallback_departure: "addDays actIn (3 / 8) = actIn"
  by (simp add: addDays_def toInteger_def)

lemma actualOut_no_checkout: "actualOutOf dateObj actIn [] = actIn"
  by (simp add: actualOutOf_def fallback_departure)

lemma no_checkout_hours:
  assumes "checkOutTimes mapping g = []"
  shows "actualOut (workedShift env mapping i g t ts) = actualIn (workedShift env mapping i g t ts)"
    and "workHours (workedShift env mapping i g t ts) = 0"
  using assms
  by (simp_all add: workedShift_def actualOut_no_checkout Let_def split: prod.split)

text \<open>
  Claim C4 at a failing input. For the arrival 11:05 with no departure, the departure the
  code computes is \<open>addDays(actualIn, 0.375)\<close>, which is the arrival itself, since
  \<open>addDays\<close> adds whole days only: the worked hours are 0, not 9. The shift type C, the
  lateness 5, the penalty 0 and the net pay 10 are as the claim says.
\<close>

theorem no_checkout_zero_hours:
  "dayShifts demoEnv [noCheckoutRow] FORCE_MAPPING = [noCheckoutShift] \<and>
   actualIn noCheckoutShift = 1705316700000 \<and>
   actualOut noCheckoutShift = actualIn noCheckoutShift \<and>
   actualOut noCheckoutShift \<noteq> actualIn noCheckoutShift + 9 * 3600000 \<and>
   workHours noCheckoutShift = 0 \<and> workHours noCheckoutShift \<noteq> 9 \<and>
   shiftType noCheckoutShift = C \<and> latenessMinutes noCheckoutShift = 5 \<and>
   attendancePenalty noCheckoutShift = 0 \<and> netPay noCheckoutShift = Fin 10"
  by (simp add: run_noCheckoutRow noCheckoutShift_def)

section \<open>Placeholder shifts\<close>

lemma foldl_plus_sum:
  fixes z :: real
  shows "foldl (\<lambda>sum r. sum + f r) z xs = z + sum_list (map f xs)"
  by (induction xs arbitrary: z) simp_all

lemma dailyPaid_sum:
  "dailyPaid mapping g = sum_list (map (\<lambda>r. parseCurrency (r (paid_col mapping))) (records g))"
  by (simp add: dailyPaid_def foldl_plus_sum)

lemma length_buildShifts:
  "length (buildShifts env mapping grouped) = length (objValues grouped)"
  by (simp add: buildShifts_def)

lemma nth_buildShifts:
  assumes "k < length (objValues grouped)"
  shows "buildShifts env mapping grouped ! k
           = shiftOfGroup env mapping (random_id env k) (objValues grouped ! k)"
  using assms by (simp add: buildShifts_def nth_enumerate_eq)

text \<open>
  Claim C5. The pipeline makes one shift for each group of rows, in the order of the
  groups. For a group in which no check-in parsed, the shift is a placeholder: it carries
  the name and the date of the group, its timing and pay fields are 0 (arrival,
  departure and nominal start are the parsed date, the type is A), its \<open>amountPaid\<close> is
  the sum of the paid values of the rows of the group, and its \<open>balanceRemaining\<close> is
  \<open>- amountPaid\<close>. The list of these shifts is \<open>detailedLogs\<close> of the result.
\<close>

theorem placeholder_emitted:
  fixes env :: Env and mapping :: ColumnMapping and rawRecords :: "AttendanceRecord list"
  defines "groups \<equiv> objValues (fst (groupRows env mapping rawRecords))"
  defines "shifts \<equiv> dayShifts env rawRecords mapping"
  shows "length shifts = length groups \<and>
         (\<forall>k < length groups.
            checkInTimes mapping (groups ! k) = [] \<longrightarrow>
              name (shifts ! k) = displayName (groups ! k) \<and>
              date (shifts ! k) = format env (parsedDate (groups ! k)) ''yyyy-MM-dd'' \<and>
              actualIn (shifts ! k) = parsedDate (groups ! k) \<and>
              actualOut (shifts ! k) = parsedDate (groups ! k) \<and>
              shiftStart (shifts ! k) = parsedDate (groups ! k) \<and>
              shiftType (shifts ! k) = A \<and>
              latenessMinutes (shifts ! k) = 0 \<and> earlyMinutes (shifts ! k) = 0 \<and>
              workHours (shifts ! k) = 0 \<and> durationHours (shifts ! k) = 0 \<and>
              otHours (shifts ! k) = 0 \<and> otPay (shifts ! k) = 0 \<and>
              standardPay (shifts ! k) = 0 \<and> attendancePenalty (shifts ! k) = 0 \<and>
              netPay (shifts ! k) = 0 \<and>
              amountPaid (shifts ! k)
                = sum_list (map (\<lambda>r. parseCurrency (r (paid_col mapping)))
                                (records (groups ! k))) \<and>
              balanceRemaining (shifts ! k) = Fin (- amountPaid (shifts ! k))) \<and>
         (processPayroll env rawRecords mapping = Inr r \<longrightarrow> detailedLogs r = shifts)"
proof (intro conjI allI impI)
  show "length shifts = length groups"
    unfolding shifts_def groups_def dayShifts_def by (rule length_buildShifts)
next
  assume "processPayroll env rawRecords mapping = Inr r"
  then show "detailedLogs r = shifts"
    unfolding shifts_def by (rule processPayroll_logs(1))
next
  fix k
  assume k: "k < length groups" and none: "checkInTimes mapping (groups ! k) = []"
  have "shifts ! k = shiftOfGroup env mapping (random_id env k) (groups ! k)"
    using k unfolding shifts_def groups_def dayShifts_def by (rule nth_buildShifts)
  then have eq: "shifts ! k = placeholderShift env mapping (random_id env k) (groups ! k)"
    using none by (simp add: shiftOfGroup_def)
  show "name (shifts ! k) = displayName (groups ! k)"
    "date (shifts ! k) = format env (parsedDate (groups ! k)) ''yyyy-MM-dd''"
    "actualIn (shifts ! k) = parsedDate (groups ! k)"
    "actualOut (shifts ! k) = parsedDate (groups ! k)"
    "shiftStart (shifts ! k) = parsedDate (groups ! k)"
    "shiftType (shifts ! k) = A"
    "latenessMinutes (shifts ! k) = 0" "earlyMinutes (shifts ! k) = 0"
    "workHours (shifts ! k) = 0" "durationHours (shifts ! k) = 0"
    "otHours (shifts ! k) = 0" "otPay (shifts ! k) = 0"
    "standardPay (shifts ! k) = 0" "attendancePenalty (shifts ! k) = 0"
    "netPay (shifts ! k) = 0"
    "amountPaid (shifts ! k)
       = sum_list (map (\<lambda>r. parseCurrency (r (paid_col mapping))) (records (groups ! k)))"
    "balanceRemaining (shifts ! k) = Fin (- amountPaid (shifts ! k))"
    unfolding eq by (simp_all add: placeholderShift_def dailyPaid_sum)
qed

lemma run_absentRow_ok: "\<not> isl (processPayroll demoEnv [absentRow] FORCE_MAPPING)"
  by code_simp

text \<open>The theorem at the run of \<open>absentRow\<close>, which has 4 in the paid column.\<close>

theorem placeholder_emitted_witness:
  "(0::nat) < length (objValues (fst (groupRows demoEnv FORCE_MAPPING [absentRow]))) \<and>
   checkInTimes FORCE_MAPPING (objValues (fst (groupRows demoEnv FORCE_MAPPING [absentRow])) ! 0)
     = [] \<and>
   workHours (dayShifts demoEnv [absentRow] FORCE_MAPPING ! 0) = 0 \<and>
   netPay (dayShifts demoEnv [absentRow] FORCE_MAPPING ! 0) = 0 \<and>
   amountPaid (dayShifts demoEnv [absentRow] FORCE_MAPPING ! 0) = 4 \<and>
   balanceRemaining (dayShifts demoEnv [absentRow] FORCE_MAPPING ! 0) = Fin (- 4) \<and>
   (\<exists>r. processPayroll demoEnv [absentRow] FORCE_MAPPING = Inr r
        \<and> detailedLogs r = dayShifts demoEnv [absentRow] FORCE_MAPPING)"
proof -
  let ?groups = "objValues (fst (groupRows demoEnv FORCE_MAPPING [absentRow]))"
  have len: "(0::nat) < length ?groups" by code_simp
  have none: "checkInTimes FORCE_MAPPING (?groups ! 0) = []" by code_simp
  have paid: "sum_list (map (\<lambda>r. parseCurrency (r (paid_col FORCE_MAPPING)))
                (records (?groups ! 0))) = 4" by code_simp
  obtain r where r: "processPayroll demoEnv [absentRow] FORCE_MAPPING = Inr r"
    using run_absentRow_ok by (cases "processPayroll demoEnv [absentRow] FORCE_MAPPING") auto
  note T = placeholder_emitted[where env = demoEnv and mapping = FORCE_MAPPING
      and rawRecords = "[absentRow]" and r = r]
  from T len none have fields:
    "workHours (dayShifts demoEnv [absentRow] FORCE_MAPPING ! 0) = 0"
    "netPay (dayShifts demoEnv [absentRow] FORCE_MAPPING ! 0) = 0"
    "amountPaid (dayShifts demoEnv [absentRow] FORCE_MAPPING ! 0)
       = sum_list (map (\<lambda>r. parseCurrency (r (paid_col FORCE_MAPPING))) (records (?groups ! 0)))"
    "balanceRemaining (dayShifts demoEnv [absentRow] FORCE_MAPPING ! 0)
       = Fin (- amountPaid (dayShifts demoEnv [absentRow] FORCE_MAPPING ! 0))"
    by blast+
  from T r have logs: "detailedLogs r = dayShifts demoEnv [absentRow] FORCE_MAPPING"
    by blast
  show ?thesis using len none fields paid r logs by auto
qed


section \<open>Rows that are dropped\<close>

lemma groupStep_fst:
  "fst (groupStep env mapping (g, l) r) = fst (groupStep env mapping (g, l') r)"
  by (simp add: groupStep_def Let_def split: option.split)

lemma groupStep_snd:
  "snd (groupStep env mapping (g, l) r) = l @ snd (groupStep env mapping (g', []) r)"
  by (simp add: groupStep_def Let_def split: option.split)

lemma groupFold_fst:
  "fst (foldl (groupStep env mapping) (g, l) rows)
     = fst (foldl (groupStep env mapping) (g, l') rows)"
proof (induction rows arbitrary: g l l')
  case Nil
  show ?case by simp
next
  case (Cons r rows)
  obtain g1 l1 where s1: "groupStep env mapping (g, l) r = (g1, l1)"
    by (cases "groupStep env mapping (g, l) r")
  obtain g2 l2 where s2: "groupStep env mapping (g, l') r = (g2, l2)"
    by (cases "groupStep env mapping (g, l') r")
  have "g1 = g2"
    using groupStep_fst[of env mapping g l r l'] s1 s2 by simp
  then show ?case
    using Cons.IH[of g1 l1 l2] s1 s2 by simp
qed

lemma groupFold_snd:
  "snd (foldl (groupStep env mapping) (g, l) rows)
     = l @ snd (foldl (groupStep env mapping) (g', []) rows)"
proof (induction rows arbitrary: g l g')
  case Nil
  show ?case by simp
next
  case (Cons r rows)
  obtain g1 l1 where s1: "groupStep env mapping (g, l) r = (g1, l1)"
    by (cases "groupStep env mapping (g, l) r")
  obtain g2 l2 where s2: "groupStep env mapping (g', []) r = (g2, l2)"
    by (cases "groupStep env mapping (g', []) r")
  have l1: "l1 = l @ l2"
    using groupStep_snd[of env mapping g l r g'] s1 s2 by simp
  have "snd (foldl (groupStep env mapping) (g1, l1) rows)
          = l1 @ snd (foldl (groupStep env mapping) (g2, []) rows)"
    by (rule Cons.IH)
  moreover have "snd (foldl (groupStep env mapping) (g2, l2) rows)
          = l2 @ snd (foldl (groupStep env mapping) (g2, []) rows)"
    by (rule Cons.IH)
  ultimately show ?case
    using s1 s2 l1 by simp
qed

lemma groupRows_append:
  "groupRows env mapping (xs @ ys)
     = foldl (groupStep env mapping) (groupRows env mapping xs) ys"
  by (simp add: groupRows_def)

lemma groupRows_logs_append:
  "snd (groupRows env mapping (xs @ ys))
     = snd (groupRows env mapping xs) @ snd (groupRows env mapping ys)"
proof -
  obtain g l where st: "groupRows env mapping xs = (g, l)"
    by (cases "groupRows env mapping xs")
  show ?thesis
    unfolding groupRows_append st
    using groupFold_snd[of env mapping g l ys "[]"] by (simp add: groupRows_def)
qed

lemma skipped_row_groups:
  assumes "fst (groupStep env mapping (groupRows env mapping xs) r)
             = fst (groupRows env mapping xs)"
  shows "fst (groupRows env mapping (xs @ r # ys)) = fst (groupRows env mapping (xs @ ys))"
proof -
  obtain g l where st: "groupRows env mapping xs = (g, l)"
    by (cases "groupRows env mapping xs")
  obtain l1 where s1: "groupStep env mapping (g, l) r = (g, l1)"
    using assms st by (cases "groupStep env mapping (g, l) r") simp
  have "groupRows env mapping (xs @ r # ys) = foldl (groupStep env mapping) (g, l1) ys"
    using st s1 by (simp add: groupRows_def)
  moreover have "groupRows env mapping (xs @ ys) = foldl (groupStep env mapping) (g, l) ys"
    using st by (simp add: groupRows_def)
  ultimately show ?thesis
    using groupFold_fst[of env mapping g l1 ys l] by simp
qed

lemma single_row_logs:
  "snd (groupRows env mapping [r]) = snd (groupStep env mapping ([], []) r)"
  by (simp add: groupRows_def)

lemma groupStep_bad_date:
  assumes "namedRow mapping r" and "dateTextOf mapping r \<noteq> []"
    and "robustParseDate env (dateTextOf mapping r) = None"
  shows "groupStep env mapping (g, l) r
           = (g, l @ [dateFailure (nameOf mapping r) (dateTextOf mapping r)])"
  using assms by (simp add: groupStep_def namedRow_def nameOf_def dateTextOf_def Let_def)

lemma groupStep_empty_date:
  assumes "dateTextOf mapping r = []"
  shows "groupStep env mapping st r = st"
  using assms by (simp add: groupStep_def dateTextOf_def Let_def)

lemma processPayroll_same_groups:
  assumes "fst (groupRows env mapping rows') = fst (groupRows env mapping rows)"
  shows "processPayroll env rows' mapping
           = map_sum id (cleansingLogs_update (\<lambda>_. snd (groupRows env mapping rows')))
               (processPayroll env rows mapping)"
  using assms
  by (simp add: processPayroll_def dayShifts_def finish_def assemble_def Let_def
           split: sum.split)

text \<open>
  Claim C8, as amended. A row with a name that is neither empty nor a header literal,
  whose date text is not empty after trimming and does not parse, is dropped: the groups,
  and so the shifts, are those of the input without the row; exactly one entry of the
  kind \<open>TIME_INTERPOLATION\<close>, naming the row's name and date text, stands in the cleansing
  log between the entries of the rows before and those of the rows after; and the run
  ends as the run without the row does, with that log. A row whose date text is empty
  after trimming is dropped with no entry in the log.
\<close>

theorem unparsable_date_row:
  fixes env :: Env and mapping :: ColumnMapping and r :: AttendanceRecord
    and xs ys :: "AttendanceRecord list"
  defines "rows' \<equiv> xs @ r # ys"
  defines "rows \<equiv> xs @ ys"
  shows "(namedRow mapping r \<and> dateTextOf mapping r \<noteq> []
            \<and> robustParseDate env (dateTextOf mapping r) = None \<longrightarrow>
            fst (groupRows env mapping rows') = fst (groupRows env mapping rows) \<and>
            dayShifts env rows' mapping = dayShifts env rows mapping \<and>
            snd (groupRows env mapping rows')
              = snd (groupRows env mapping xs)
                  @ [dateFailure (nameOf mapping r) (dateTextOf mapping r)]
                  @ snd (groupRows env mapping ys) \<and>
            processPayroll env rows' mapping
              = map_sum id (cleansingLogs_update (\<lambda>_. snd (groupRows env mapping rows')))
                  (processPayroll env rows mapping)) \<and>
         (dateTextOf mapping r = [] \<longrightarrow>
            groupRows env mapping rows' = groupRows env mapping rows \<and>
            processPayroll env rows' mapping = processPayroll env rows mapping)"
proof (intro conjI impI)
  assume bad: "namedRow mapping r \<and> dateTextOf mapping r \<noteq> []
            \<and> robustParseDate env (dateTextOf mapping r) = None"
  obtain g l where st: "groupRows env mapping xs = (g, l)"
    by (cases "groupRows env mapping xs")
  have step: "groupStep env mapping (g, l) r
           = (g, l @ [dateFailure (nameOf mapping r) (dateTextOf mapping r)])"
    using bad by (simp add: groupStep_bad_date)
  show groups: "fst (groupRows env mapping rows') = fst (groupRows env mapping rows)"
    unfolding rows'_def rows_def
    by (rule skipped_row_groups) (simp add: st step)
  then show "dayShifts env rows' mapping = dayShifts env rows mapping"
    by (simp add: dayShifts_def)
  have "snd (groupRows env mapping [r])
          = [dateFailure (nameOf mapping r) (dateTextOf mapping r)]"
    using groupStep_bad_date[OF bad[THEN conjunct1] bad[THEN conjunct2, THEN conjunct1]
        bad[THEN conjunct2, THEN conjunct2], of "[]" "[]"]
    by (simp add: single_row_logs)
  then show "snd (groupRows env mapping rows')
              = snd (groupRows env mapping xs)
                  @ [dateFailure (nameOf mapping r) (dateTextOf mapping r)]
                  @ snd (groupRows env mapping ys)"
    unfolding rows'_def
    using groupRows_logs_append[of env mapping xs "r # ys"]
      groupRows_logs_append[of env mapping "[r]" ys] by simp
  show "processPayroll env rows' mapping
              = map_sum id (cleansingLogs_update (\<lambda>_. snd (groupRows env mapping rows')))
                  (processPayroll env rows mapping)"
    using groups by (rule processPayroll_same_groups)
next
  assume empty: "dateTextOf mapping r = []"
  then have "groupStep env mapping (groupRows env mapping xs) r = groupRows env mapping xs"
    by (rule groupStep_empty_date)
  then show same: "groupRows env mapping rows' = groupRows env mapping rows"
    unfolding rows'_def rows_def by (simp add: groupRows_def)
  then show "processPayroll env rows' mapping = processPayroll env rows mapping"
    by (simp add: processPayroll_def dayShifts_def)
qed

text \<open>
  The theorem at \<open>badDateRow\<close> and at \<open>emptyDateRow\<close>, each between \<open>lateRow\<close> and
  \<open>absentRow\<close>.
\<close>

theorem unparsable_date_row_witness:
  "namedRow FORCE_MAPPING badDateRow \<and> dateTextOf FORCE_MAPPING badDateRow = ''N/A'' \<and>
   robustParseDate demoEnv ''N/A'' = None \<and>
   dayShifts demoEnv [lateRow, badDateRow, absentRow] FORCE_MAPPING
     = dayShifts demoEnv [lateRow, absentRow] FORCE_MAPPING \<and>
   snd (groupRows demoEnv FORCE_MAPPING [lateRow, badDateRow, absentRow])
     = [dateFailure ''Ali'' ''N/A''] \<and>
   dateTextOf FORCE_MAPPING emptyDateRow = [] \<and>
   groupRows demoEnv FORCE_MAPPING [lateRow, emptyDateRow, absentRow]
     = groupRows demoEnv FORCE_MAPPING [lateRow, absentRow]"
proof -
  have named: "namedRow FORCE_MAPPING badDateRow" by code_simp
  have nm: "nameOf FORCE_MAPPING badDateRow = ''Ali''" by code_simp
  have dtext: "dateTextOf FORCE_MAPPING badDateRow = ''N/A''" by code_simp
  have bad: "robustParseDate demoEnv ''N/A'' = None" by code_simp
  have l1: "snd (groupRows demoEnv FORCE_MAPPING [lateRow]) = []" by code_simp
  have l2: "snd (groupRows demoEnv FORCE_MAPPING [absentRow]) = []" by code_simp
  have empty: "dateTextOf FORCE_MAPPING emptyDateRow = []" by code_simp
  note T = unparsable_date_row[where env = demoEnv and mapping = FORCE_MAPPING
      and r = badDateRow and xs = "[lateRow]" and ys = "[absentRow]"]
  note U = unparsable_date_row[where env = demoEnv and mapping = FORCE_MAPPING
      and r = emptyDateRow and xs = "[lateRow]" and ys = "[absentRow]"]
  from T named dtext bad have
    "dayShifts demoEnv ([lateRow] @ badDateRow # [absentRow]) FORCE_MAPPING
       = dayShifts demoEnv ([lateRow] @ [absentRow]) FORCE_MAPPING"
    "snd (groupRows demoEnv FORCE_MAPPING ([lateRow] @ badDateRow # [absentRow]))
       = snd (groupRows demoEnv FORCE_MAPPING [lateRow])
           @ [dateFailure (nameOf FORCE_MAPPING badDateRow) (dateTextOf FORCE_MAPPING badDateRow)]
           @ snd (groupRows demoEnv FORCE_MAPPING [absentRow])"
    by simp_all
  moreover from U empty have
    "groupRows demoEnv FORCE_MAPPING ([lateRow] @ emptyDateRow # [absentRow])
       = groupRows demoEnv FORCE_MAPPING ([lateRow] @ [absentRow])"
    by simp
  ultimately show ?thesis
    using named dtext bad empty nm l1 l2 by simp
qed


text \<open>
  Claim C8 as stated fails for a row whose date cell is empty: the date does not parse,
  the row is dropped, and no entry is appended to the cleansing log.
\<close>

theorem empty_date_not_logged:
  "namedRow FORCE_MAPPING emptyDateRow \<and>
   robustParseDate demoEnv (dateTextOf FORCE_MAPPING emptyDateRow) = None \<and>
   snd (groupRows demoEnv FORCE_MAPPING [emptyDateRow]) = [] \<and>
   dayShifts demoEnv [emptyDateRow] FORCE_MAPPING = []"
  by code_simp

section \<open>Running the pipeline again\<close>

lemma firstFormat_ids:
  "firstFormat (env\<lparr>random_id := ids\<rparr>) cleaned fs = firstFormat env cleaned fs"
  by (induction fs) (simp_all split: option.split)

lemma robustParseDate_ids:
  "robustParseDate (env\<lparr>random_id := ids\<rparr>) dateStr = robustParseDate env dateStr"
  by (simp add: robustParseDate_def firstFormat_ids Let_def split: option.split)

lemma groupStep_ids:
  "groupStep (env\<lparr>random_id := ids\<rparr>) mapping = groupStep env mapping"
  by (intro ext) (simp add: groupStep_def robustParseDate_ids Let_def split: option.split)

lemma groupRows_ids:
  "groupRows (env\<lparr>random_id := ids\<rparr>) mapping rawRecords = groupRows env mapping rawRecords"
  by (simp add: groupRows_def groupStep_ids)

lemma shiftOfGroup_ids:
  "eraseId (shiftOfGroup (env\<lparr>random_id := ids\<rparr>) mapping i g)
     = eraseId (shiftOfGroup env mapping j g)"
  by (simp add: eraseId_def shiftOfGroup_def placeholderShift_def workedShift_def Let_def
           split: list.split prod.split)

lemma buildShifts_ids:
  "map eraseId (buildShifts (env\<lparr>random_id := ids\<rparr>) mapping grouped)
     = map eraseId (buildShifts env mapping grouped)"
proof (rule nth_equalityI)
  show "length (map eraseId (buildShifts (env\<lparr>random_id := ids\<rparr>) mapping grouped))
          = length (map eraseId (buildShifts env mapping grouped))"
    by (simp add: length_buildShifts)
next
  fix k
  assume "k < length (map eraseId (buildShifts (env\<lparr>random_id := ids\<rparr>) mapping grouped))"
  then have k: "k < length (objValues grouped)"
    by (simp add: length_buildShifts)
  show "map eraseId (buildShifts (env\<lparr>random_id := ids\<rparr>) mapping grouped) ! k
          = map eraseId (buildShifts env mapping grouped) ! k"
    using k by (simp add: length_buildShifts nth_buildShifts shiftOfGroup_ids)
qed

lemma aggStep_ids:
  "aggStep (env\<lparr>random_id := ids\<rparr>) st s = aggStep env st s"
  by (simp add: aggStep_def Let_def split: option.split)

lemma aggAll_ids:
  "aggAll (env\<lparr>random_id := ids\<rparr>) st xs = aggAll env st xs"
  by (induction xs arbitrary: st) (simp_all add: aggStep_ids split: sum.split)

lemma assemble_ids:
  "assemble (env\<lparr>random_id := ids\<rparr>) xs logs st = assemble env xs logs st"
  unfolding assemble_def Let_def by (simp split: option.split)

lemma aggStep_eraseId: "aggStep env st (eraseId s) = aggStep env st s"
  by (simp add: aggStep_def eraseId_def addToSummary_def addToMonth_def isWorked_def Let_def
           split: option.split)

lemma aggAll_eraseId: "aggAll env st (map eraseId xs) = aggAll env st xs"
  by (induction xs arbitrary: st) (simp_all add: aggStep_eraseId split: sum.split)

lemma isWorked_eraseId: "isWorked \<circ> eraseId = isWorked"
  by (auto simp: fun_eq_iff isWorked_def eraseId_def)

lemma worked_eraseId:
  "(\<lambda>s. shiftType s = t \<and> 0 < workHours s) \<circ> eraseId = (\<lambda>s. shiftType s = t \<and> 0 < workHours s)"
  "(\<lambda>s. 0 < workHours s) \<circ> eraseId = (\<lambda>s. 0 < workHours s)"
  by (auto simp: fun_eq_iff eraseId_def)

lemma usage_eraseId: "usage t (map eraseId xs) = usage t xs"
  by (simp add: usage_def filter_map worked_eraseId)

lemma totals_eraseId:
  "foldl (\<lambda>a b. a + latenessMinutes b) z (map eraseId xs) = foldl (\<lambda>a b. a + latenessMinutes b) z xs"
  "foldl (\<lambda>a b. a + attendancePenalty b + manualPenalty b) y (map eraseId xs)
     = foldl (\<lambda>a b. a + attendancePenalty b + manualPenalty b) y xs"
  "foldl (\<lambda>a b. a + otHours b) y (map eraseId xs) = foldl (\<lambda>a b. a + otHours b) y xs"
  by (simp_all add: foldl_map eraseId_def)

lemma worked_count_eraseId:
  "length (filter isWorked (map eraseId xs)) = length (filter isWorked xs)"
  by (simp add: filter_map isWorked_eraseId)

lemma assemble_eraseId:
  "assemble env (map eraseId xs) logs st
     = (assemble env xs logs st)\<lparr>detailedLogs := map eraseId xs\<rparr>"
  unfolding assemble_def Let_def totals_eraseId usage_eraseId worked_count_eraseId by simp

lemma finish_eraseId:
  "map_sum id withoutIds (finish env xs logs) = finish env (map eraseId xs) logs"
proof -
  have "detailedLogs (assemble env xs logs st) = xs" for st
    by (simp add: assemble_def Let_def)
  then show ?thesis
    by (simp add: finish_def aggAll_eraseId withoutIds_def assemble_eraseId split: sum.split)
qed

lemma finish_ids: "finish (env\<lparr>random_id := ids\<rparr>) xs logs = finish env xs logs"
  by (simp add: finish_def aggAll_ids assemble_ids split: sum.split)

text \<open>
  Claim C7, as amended. Two runs of the pipeline on the same rows and the same mapping,
  in the same environment (the same reading of dates by the engine and by date-fns, the
  same comparison of texts, the same day of the run), whatever texts \<open>Math.random\<close>
  gives in each, both fail or both succeed, and their results are identical in every
  field but the identifier of each shift of \<open>detailedLogs\<close>.
\<close>

theorem rerun_same_but_ids:
  "map_sum id withoutIds (processPayroll (env\<lparr>random_id := ids\<rparr>) rawRecords mapping)
     = map_sum id withoutIds (processPayroll env rawRecords mapping)"
  by (simp add: processPayroll_def dayShifts_def finish_eraseId finish_ids groupRows_ids
        buildShifts_ids)

lemma run_futureRow:
  "map_sum id (\<lambda>r. (map shift_id (detailedLogs r), totalFutureLiability (insights r)))
     (processPayroll demoEnv [futureRow] FORCE_MAPPING) = Inr ([''id0''], Fin 10)"
  by code_simp

lemma rerun_futureRow:
  "map_sum id (\<lambda>r. (map shift_id (detailedLogs r), totalFutureLiability (insights r)))
     (processPayroll rerunEnv [futureRow] FORCE_MAPPING) = Inr ([''run20''], Fin 10)"
  by code_simp

lemma later_futureRow:
  "map_sum id (\<lambda>r. (map shift_id (detailedLogs r), totalFutureLiability (insights r)))
     (processPayroll laterEnv [futureRow] FORCE_MAPPING) = Inr ([''id0''], Fin 0)"
  by code_simp

text \<open>
  Claim C7 as stated fails: on the same row and mapping, a second run draws other
  identifiers from \<open>Math.random\<close>, and a run on a later day finds the shift of 15 June
  2024 no longer in the future, so that \<open>totalFutureLiability\<close> is 0 and not 10.
\<close>

theorem rerun_differs:
  "processPayroll rerunEnv [futureRow] FORCE_MAPPING
     \<noteq> processPayroll demoEnv [futureRow] FORCE_MAPPING \<and>
   processPayroll laterEnv [futureRow] FORCE_MAPPING
     \<noteq> processPayroll demoEnv [futureRow] FORCE_MAPPING"
proof
  show "processPayroll rerunEnv [futureRow] FORCE_MAPPING
          \<noteq> processPayroll demoEnv [futureRow] FORCE_MAPPING"
  proof
    assume "processPayroll rerunEnv [futureRow] FORCE_MAPPING
              = processPayroll demoEnv [futureRow] FORCE_MAPPING"
    then have "(Inr ([''run20''], Fin 10) :: Failure + string list \<times> number)
                 = Inr ([''id0''], Fin 10)"
      using run_futureRow rerun_futureRow by simp
    then show False by simp
  qed
next
  show "processPayroll laterEnv [futureRow] FORCE_MAPPING
          \<noteq> processPayroll demoEnv [futureRow] FORCE_MAPPING"
  proof
    assume "processPayroll laterEnv [futureRow] FORCE_MAPPING
              = processPayroll demoEnv [futureRow] FORCE_MAPPING"
    then have "(Inr ([''id0''], Fin 0) :: Failure + string list \<times> number)
                 = Inr ([''id0''], Fin 10)"
      using run_futureRow later_futureRow by simp
    then show False by simp
  qed
qed

text \<open>The theorem at the run of \<open>futureRow\<close> with the identifiers of \<open>rerunEnv\<close>.\<close>

theorem rerun_same_but_ids_witness:
  "map_sum id withoutIds (processPayroll rerunEnv [futureRow] FORCE_MAPPING)
     = map_sum id withoutIds (processPayroll demoEnv [futureRow] FORCE_MAPPING)"
  using rerun_same_but_ids[where env = demoEnv and ids = "\<lambda>k. ''run2'' @ digitsOf k"
      and rawRecords = "[futureRow]" and mapping = FORCE_MAPPING]
  by (simp add: rerunEnv_def)

end
